theory Spec2Isabelle
  imports Main
begin

section \<open>Python values\<close>

text \<open>
  The values that the configuration store handles: JSON documents (without floating
  point numbers), tuples, which \<^verbatim>\<open>json.dumps\<close> writes as arrays, and \<^verbatim>\<open>datetime\<close>
  objects, which \<^verbatim>\<open>json.dumps\<close> rejects unless a \<^verbatim>\<open>default\<close> converter is given. A Python \<^verbatim>\<open>str\<close> is a \<^typ>\<open>string\<close> whose
  characters are the code points below 256; a \<^verbatim>\<open>dict\<close> is an association list in
  insertion order.
\<close>

record pydatetime =
  year :: nat
  month :: nat
  day :: nat
  hour :: nat
  minute :: nat
  second :: nat
  microsecond :: nat
  utcoffset :: "int option"

datatype pyval =
    PNone
  | PBool bool
  | PInt int
  | PStr string
  | PList "pyval list"
  | PDict "(string \<times> pyval) list"
  | PDatetime pydatetime
  | PTuple "pyval list"

datatype exn =
    TypeError
  | ValueError
  | KeyError
  | JSONDecodeError
  | AttributeError
  | InvalidToken
  | StoreError

text \<open>Python truthiness, as used by \<^verbatim>\<open>if x:\<close> and \<^verbatim>\<open>if not x:\<close>.\<close>

fun truthy :: "pyval \<Rightarrow> bool" where
  "truthy PNone = False"
| "truthy (PBool b) = b"
| "truthy (PInt i) = (i \<noteq> 0)"
| "truthy (PStr s) = (s \<noteq> [])"
| "truthy (PList xs) = (xs \<noteq> [])"
| "truthy (PDict kvs) = (kvs \<noteq> [])"
| "truthy (PDatetime d) = True"
| "truthy (PTuple xs) = (xs \<noteq> [])"

text \<open>\<^verbatim>\<open>d[k] = v\<close>: an existing key keeps its position, a new key is appended.\<close>

fun dict_set :: "(string \<times> 'a) list \<Rightarrow> string \<Rightarrow> 'a \<Rightarrow> (string \<times> 'a) list" where
  "dict_set [] k v = [(k, v)]"
| "dict_set ((k', v') # kvs) k v =
     (if k' = k then (k, v) # kvs else (k', v') # dict_set kvs k v)"

section \<open>Decimal and hexadecimal digits\<close>

definition digit_char :: "nat \<Rightarrow> char" where
  "digit_char n = char_of (48 + n mod 10)"

definition digit_val :: "char \<Rightarrow> nat option" where
  "digit_val c =
     (if (48::nat) \<le> of_char c \<and> of_char c \<le> (57::nat) then Some (of_char c - 48) else None)"

definition is_digit :: "char \<Rightarrow> bool" where
  "is_digit c \<longleftrightarrow> digit_val c \<noteq> None"

text \<open>Lower case on output, as Python writes it; either case on input.\<close>

definition hex_char :: "nat \<Rightarrow> char" where
  "hex_char n = (if n mod 16 < 10 then char_of (48 + n mod 16) else char_of (87 + n mod 16))"

definition hex_val :: "char \<Rightarrow> nat option" where
  "hex_val c =
     (if (48::nat) \<le> of_char c \<and> of_char c \<le> (57::nat) then Some (of_char c - 48)
      else if (97::nat) \<le> of_char c \<and> of_char c \<le> (102::nat) then Some (of_char c - 87)
      else if (65::nat) \<le> of_char c \<and> of_char c \<le> (70::nat) then Some (of_char c - 55)
      else None)"

text \<open>\<^verbatim>\<open>str(n)\<close> for a natural number: decimal, no leading zeros.\<close>

fun digits_of :: "nat \<Rightarrow> string" where
  "digits_of n = (if n < 10 then [digit_char n] else digits_of (n div 10) @ [digit_char n])"

declare digits_of.simps [simp del]

text \<open>The value of a run of decimal digits, most significant first.\<close>

definition digits_val :: "string \<Rightarrow> nat" where
  "digits_val ds = foldl (\<lambda>a c. 10 * a + (case digit_val c of Some d \<Rightarrow> d | None \<Rightarrow> 0)) 0 ds"

section \<open>The JSON encoder (json.dumps)\<close>

text \<open>
  \<^verbatim>\<open>json.dumps\<close> with its default settings: \<^verbatim>\<open>ensure_ascii=True\<close>, item separator
  \<^verbatim>\<open>", "\<close>, key separator \<^verbatim>\<open>": "\<close>. Every character outside the printable ASCII
  range, the quote and the backslash are escaped.
\<close>

definition escape_char :: "char \<Rightarrow> string" where
  "escape_char c =
     (if c = CHR 0x22 then [CHR 0x5C, CHR 0x22]
      else if c = CHR 0x5C then [CHR 0x5C, CHR 0x5C]
      else if c = CHR 0x0A then [CHR 0x5C, CHR ''n'']
      else if c = CHR 0x0D then [CHR 0x5C, CHR ''r'']
      else if c = CHR 0x09 then [CHR 0x5C, CHR ''t'']
      else if c = CHR 0x08 then [CHR 0x5C, CHR ''b'']
      else if c = CHR 0x0C then [CHR 0x5C, CHR ''f'']
      else if (of_char c :: nat) < 32 \<or> (of_char c :: nat) > 126 then
        [CHR 0x5C, CHR ''u'', CHR ''0'', CHR ''0'',
         hex_char ((of_char c :: nat) div 16), hex_char (of_char c :: nat)]
      else [c])"

definition encode_str :: "string \<Rightarrow> string" where
  "encode_str s = CHR 0x22 # concat (map escape_char s) @ [CHR 0x22]"

text \<open>\<^verbatim>\<open>str(i)\<close> for an integer, which is also its JSON text.\<close>

definition str_of_int :: "int \<Rightarrow> string" where
  "str_of_int i = (if i < 0 then CHR ''-'' # digits_of (nat (- i)) else digits_of (nat i))"

text \<open>
  The text of a value that has no \<^verbatim>\<open>datetime\<close> in it. (A \<^verbatim>\<open>datetime\<close> has no text:
  \<^verbatim>\<open>json_dumps\<close> below raises before using it.)
\<close>

fun encode :: "pyval \<Rightarrow> string"
and encode_elems :: "pyval list \<Rightarrow> string"
and encode_members :: "(string \<times> pyval) list \<Rightarrow> string" where
  "encode PNone = ''null''"
| "encode (PBool b) = (if b then ''true'' else ''false'')"
| "encode (PInt i) = str_of_int i"
| "encode (PStr s) = encode_str s"
| "encode (PList xs) = ''['' @ encode_elems xs @ '']''"
| "encode (PDict kvs) = ''{'' @ encode_members kvs @ ''}''"
| "encode (PDatetime d) = []"
| "encode (PTuple xs) = ''['' @ encode_elems xs @ '']''"
| "encode_elems [] = []"
| "encode_elems [x] = encode x"
| "encode_elems (x # y # ys) = encode x @ '', '' @ encode_elems (y # ys)"
| "encode_members [] = []"
| "encode_members [(k, v)] = encode_str k @ '': '' @ encode v"
| "encode_members ((k, v) # kv # kvs) =
     encode_str k @ '': '' @ encode v @ '', '' @ encode_members (kv # kvs)"

fun serializable :: "pyval \<Rightarrow> bool" where
  "serializable (PList xs) = list_all serializable xs"
| "serializable (PDict kvs) = list_all (\<lambda>kv. serializable (snd kv)) kvs"
| "serializable (PDatetime d) = False"
| "serializable (PTuple xs) = list_all serializable xs"
| "serializable _ = True"

text \<open>\<^verbatim>\<open>json.dumps(obj)\<close>: raises \<^verbatim>\<open>TypeError\<close> on an object it cannot serialize.\<close>

definition json_dumps :: "pyval \<Rightarrow> exn + string" where
  "json_dumps v = (if serializable v then Inr (encode v) else Inl TypeError)"

section \<open>The JSON decoder (json.loads)\<close>

definition is_ws :: "char \<Rightarrow> bool" where
  "is_ws c \<longleftrightarrow> c = CHR 0x20 \<or> c = CHR 0x09 \<or> c = CHR 0x0A \<or> c = CHR 0x0D"

definition skip_ws :: "string \<Rightarrow> string" where
  "skip_ws s = dropWhile is_ws s"

text \<open>The character that a one-letter escape stands for.\<close>

definition unescape :: "char \<Rightarrow> char option" where
  "unescape e =
     (if e = CHR 0x22 then Some (CHR 0x22)
      else if e = CHR 0x5C then Some (CHR 0x5C)
      else if e = CHR ''/'' then Some (CHR ''/'')
      else if e = CHR ''b'' then Some (CHR 0x08)
      else if e = CHR ''f'' then Some (CHR 0x0C)
      else if e = CHR ''n'' then Some (CHR 0x0A)
      else if e = CHR ''r'' then Some (CHR 0x0D)
      else if e = CHR ''t'' then Some (CHR 0x09)
      else None)"

definition hex4 :: "char \<Rightarrow> char \<Rightarrow> char \<Rightarrow> char \<Rightarrow> nat option" where
  "hex4 a b c d =
     (case (hex_val a, hex_val b, hex_val c, hex_val d) of
        (Some x, Some y, Some z, Some w) \<Rightarrow> Some (((x * 16 + y) * 16 + z) * 16 + w)
      | _ \<Rightarrow> None)"

text \<open>
  The body of a string, after its opening quote: the decoded characters and the text
  after the closing quote. A raw control character is an error (strict mode), and so is
  an escaped code point of 256 or more, which a \<^typ>\<open>string\<close> here cannot hold.
\<close>

fun parse_string :: "string \<Rightarrow> (string \<times> string) option" where
  "parse_string [] = None"
| "parse_string (c # cs) =
     (if c = CHR 0x22 then Some ([], cs)
      else if c = CHR 0x5C then
        (case cs of
           [] \<Rightarrow> None
         | e # es \<Rightarrow>
            (if e = CHR ''u'' then
               (case es of
                  a # b # x # y # r \<Rightarrow>
                    (case hex4 a b x y of
                       None \<Rightarrow> None
                     | Some n \<Rightarrow>
                        (if n < 256 then
                           (case parse_string r of
                              None \<Rightarrow> None
                            | Some (s, r') \<Rightarrow> Some (char_of n # s, r'))
                         else None))
                | _ \<Rightarrow> None)
             else
               (case unescape e of
                  None \<Rightarrow> None
                | Some d \<Rightarrow>
                   (case parse_string es of
                      None \<Rightarrow> None
                    | Some (s, r') \<Rightarrow> Some (d # s, r')))))
      else if (of_char c :: nat) < 32 then None
      else
        (case parse_string cs of
           None \<Rightarrow> None
         | Some (s, r') \<Rightarrow> Some (c # s, r')))"

text \<open>
  An integer: an optional minus sign, then \<^verbatim>\<open>0\<close> or a run of digits that does not
  start with \<^verbatim>\<open>0\<close>. A fraction or an exponent makes the number a float, which is
  outside \<^typ>\<open>pyval\<close>, and is reported as an error.
\<close>

definition parse_nat :: "string \<Rightarrow> (nat \<times> string) option" where
  "parse_nat s =
     (case s of
        [] \<Rightarrow> None
      | c # r \<Rightarrow>
         (if digit_val c = Some 0 then Some (0, r)
          else if is_digit c then Some (digits_val (takeWhile is_digit s), dropWhile is_digit s)
          else None))"

definition float_follows :: "string \<Rightarrow> bool" where
  "float_follows r = (case r of [] \<Rightarrow> False | c # _ \<Rightarrow> c = CHR ''.'' \<or> c = CHR ''e'' \<or> c = CHR ''E'')"

definition parse_int :: "string \<Rightarrow> (pyval \<times> string) option" where
  "parse_int s =
     (case s of
        [] \<Rightarrow> None
      | c # r \<Rightarrow>
         (if c = CHR ''-'' then
            (case parse_nat r of
               None \<Rightarrow> None
             | Some (n, r') \<Rightarrow> if float_follows r' then None else Some (PInt (- int n), r'))
          else
            (case parse_nat s of
               None \<Rightarrow> None
             | Some (n, r') \<Rightarrow> if float_follows r' then None else Some (PInt (int n), r'))))"

fun strip_prefix :: "string \<Rightarrow> string \<Rightarrow> string option" where
  "strip_prefix [] s = Some s"
| "strip_prefix (p # ps) [] = None"
| "strip_prefix (p # ps) (c # cs) = (if p = c then strip_prefix ps cs else None)"

definition parse_literal :: "string \<Rightarrow> (pyval \<times> string) option" where
  "parse_literal s =
     (case strip_prefix ''null'' s of
        Some r \<Rightarrow> Some (PNone, r)
      | None \<Rightarrow>
         (case strip_prefix ''true'' s of
            Some r \<Rightarrow> Some (PBool True, r)
          | None \<Rightarrow>
             (case strip_prefix ''false'' s of
                Some r \<Rightarrow> Some (PBool False, r)
              | None \<Rightarrow> parse_int s)))"

text \<open>
  The recursive descent over arrays and objects. The first argument bounds the number
  of nested calls; \<^verbatim>\<open>json_loads\<close> starts it above twice the length of the text, and
  every call either consumes a character or is followed by one that does.
\<close>

fun parse_value :: "nat \<Rightarrow> string \<Rightarrow> (pyval \<times> string) option"
and parse_elems :: "nat \<Rightarrow> string \<Rightarrow> pyval list \<Rightarrow> (pyval \<times> string) option"
and parse_members :: "nat \<Rightarrow> string \<Rightarrow> (string \<times> pyval) list \<Rightarrow> (pyval \<times> string) option"
where
  "parse_value 0 s = None"
| "parse_value (Suc n) s =
     (case skip_ws s of
        [] \<Rightarrow> None
      | c # r \<Rightarrow>
         (if c = CHR ''['' then
            (case skip_ws r of
               [] \<Rightarrow> None
             | d # r' \<Rightarrow> if d = CHR '']'' then Some (PList [], r') else parse_elems n r [])
          else if c = CHR ''{'' then
            (case skip_ws r of
               [] \<Rightarrow> None
             | d # r' \<Rightarrow> if d = CHR ''}'' then Some (PDict [], r') else parse_members n r [])
          else if c = CHR 0x22 then
            (case parse_string r of
               None \<Rightarrow> None
             | Some (str, r') \<Rightarrow> Some (PStr str, r'))
          else parse_literal (c # r)))"
| "parse_elems 0 s acc = None"
| "parse_elems (Suc n) s acc =
     (case parse_value n s of
        None \<Rightarrow> None
      | Some (v, r) \<Rightarrow>
         (case skip_ws r of
            [] \<Rightarrow> None
          | d # r' \<Rightarrow>
             (if d = CHR '','' then parse_elems n r' (acc @ [v])
              else if d = CHR '']'' then Some (PList (acc @ [v]), r')
              else None)))"
| "parse_members 0 s acc = None"
| "parse_members (Suc n) s acc =
     (case skip_ws s of
        [] \<Rightarrow> None
      | q # r0 \<Rightarrow>
         (if q \<noteq> CHR 0x22 then None
          else
            (case parse_string r0 of
               None \<Rightarrow> None
             | Some (k, r1) \<Rightarrow>
                (case skip_ws r1 of
                   [] \<Rightarrow> None
                 | col # r2 \<Rightarrow>
                    (if col \<noteq> CHR '':'' then None
                     else
                       (case parse_value n r2 of
                          None \<Rightarrow> None
                        | Some (v, r3) \<Rightarrow>
                           (case skip_ws r3 of
                              [] \<Rightarrow> None
                            | d # r4 \<Rightarrow>
                               (if d = CHR '','' then parse_members n r4 (dict_set acc k v)
                                else if d = CHR ''}'' then Some (PDict (dict_set acc k v), r4)
                                else None))))))))"

text \<open>
  \<^verbatim>\<open>json.loads(s)\<close>: one value, with nothing but white space after it; anything else
  raises \<^verbatim>\<open>JSONDecodeError\<close>.
\<close>

definition json_loads :: "string \<Rightarrow> exn + pyval" where
  "json_loads s =
     (case parse_value (2 * length s + 2) s of
        None \<Rightarrow> Inl JSONDecodeError
      | Some (v, r) \<Rightarrow> if skip_ws r = [] then Inr v else Inl JSONDecodeError)"

section \<open>Timestamps (datetime.isoformat and datetime.fromisoformat)\<close>

text \<open>
  A \<^verbatim>\<open>datetime\<close> is its calendar fields and, when it is aware, its offset from UTC in
  minutes. \<^verbatim>\<open>isoformat()\<close> writes \<^verbatim>\<open>YYYY-MM-DDTHH:MM:SS\<close>, then the microseconds when they
  are not zero, then the offset.
\<close>

fun pad :: "nat \<Rightarrow> nat \<Rightarrow> string" where
  "pad 0 n = []"
| "pad (Suc k) n = digit_char (n div 10 ^ k) # pad k n"

definition format_offset :: "int \<Rightarrow> string" where
  "format_offset off =
     (if off < 0 then CHR ''-'' else CHR ''+'') #
       pad 2 (nat \<bar>off\<bar> div 60) @ '':'' @ pad 2 (nat \<bar>off\<bar> mod 60)"

definition isoformat :: "pydatetime \<Rightarrow> string" where
  "isoformat d =
     pad 4 (year d) @ ''-'' @ pad 2 (month d) @ ''-'' @ pad 2 (day d) @ ''T'' @
     pad 2 (hour d) @ '':'' @ pad 2 (minute d) @ '':'' @ pad 2 (second d) @
     (if microsecond d \<noteq> 0 then ''.'' @ pad 6 (microsecond d) else []) @
     (case utcoffset d of None \<Rightarrow> [] | Some off \<Rightarrow> format_offset off)"

definition is_leap :: "nat \<Rightarrow> bool" where
  "is_leap y \<longleftrightarrow> y mod 4 = 0 \<and> (y mod 100 \<noteq> 0 \<or> y mod 400 = 0)"

definition days_in_month :: "nat \<Rightarrow> nat \<Rightarrow> nat" where
  "days_in_month y m =
     (if m = 2 then (if is_leap y then 29 else 28)
      else if m = 4 \<or> m = 6 \<or> m = 9 \<or> m = 11 then 30 else 31)"

text \<open>The field ranges that every Python \<^verbatim>\<open>datetime\<close> object satisfies.\<close>

definition valid_datetime :: "pydatetime \<Rightarrow> bool" where
  "valid_datetime d \<longleftrightarrow>
     1 \<le> year d \<and> year d \<le> 9999 \<and> 1 \<le> month d \<and> month d \<le> 12 \<and>
     1 \<le> day d \<and> day d \<le> days_in_month (year d) (month d) \<and>
     hour d < 24 \<and> minute d < 60 \<and> second d < 60 \<and> microsecond d < 1000000 \<and>
     (case utcoffset d of None \<Rightarrow> True | Some off \<Rightarrow> - 1440 < off \<and> off < 1440)"

text \<open>Exactly \<open>k\<close> decimal digits, accumulated onto \<open>acc\<close>.\<close>

fun parse_fixed :: "nat \<Rightarrow> string \<Rightarrow> nat \<Rightarrow> (nat \<times> string) option" where
  "parse_fixed 0 s acc = Some (acc, s)"
| "parse_fixed (Suc k) [] acc = None"
| "parse_fixed (Suc k) (c # cs) acc =
     (case digit_val c of None \<Rightarrow> None | Some d \<Rightarrow> parse_fixed k cs (10 * acc + d))"

definition expect_char :: "char \<Rightarrow> string \<Rightarrow> string option" where
  "expect_char c s = (case s of [] \<Rightarrow> None | x # r \<Rightarrow> if x = c then Some r else None)"

text \<open>The offset \<^verbatim>\<open>+HH:MM\<close> or \<^verbatim>\<open>-HH:MM\<close>, which must end the text.\<close>

definition parse_offset :: "string \<Rightarrow> int option" where
  "parse_offset s =
     (case s of
        [] \<Rightarrow> None
      | c # r \<Rightarrow>
         (if c \<noteq> CHR ''+'' \<and> c \<noteq> CHR ''-'' then None
          else
            (case parse_fixed 2 r 0 of
               None \<Rightarrow> None
             | Some (h, r1) \<Rightarrow>
                (case expect_char (CHR '':'') r1 of
                   None \<Rightarrow> None
                 | Some r2 \<Rightarrow>
                    (case parse_fixed 2 r2 0 of
                       None \<Rightarrow> None
                     | Some (m, r3) \<Rightarrow>
                        (if r3 \<noteq> [] \<or> 24 \<le> h \<or> 60 \<le> m then None
                         else Some ((if c = CHR ''-'' then - 1 else 1) * int (h * 60 + m))))))))"

text \<open>
  The fraction of a second and the offset, after \<^verbatim>\<open>HH:MM:SS\<close>: three or six digits
  after a point, then nothing or an offset.
\<close>

definition parse_tail :: "string \<Rightarrow> (nat \<times> int option) option" where
  "parse_tail s =
     (case expect_char (CHR ''.'') s of
        None \<Rightarrow>
         (if s = [] then Some (0, None)
          else (case parse_offset s of None \<Rightarrow> None | Some off \<Rightarrow> Some (0, Some off)))
      | Some r \<Rightarrow>
         (case parse_fixed 3 r 0 of
            None \<Rightarrow> None
          | Some (ms, r1) \<Rightarrow>
             (case parse_fixed 3 r1 0 of
                None \<Rightarrow>
                 (if r1 = [] then Some (ms * 1000, None)
                  else (case parse_offset r1 of
                          None \<Rightarrow> None
                        | Some off \<Rightarrow> Some (ms * 1000, Some off)))
              | Some (us, r2) \<Rightarrow>
                 (if r2 = [] then Some (ms * 1000 + us, None)
                  else (case parse_offset r2 of
                          None \<Rightarrow> None
                        | Some off \<Rightarrow> Some (ms * 1000 + us, Some off))))))"

text \<open>
  \<^verbatim>\<open>datetime.fromisoformat\<close> on the texts that \<^verbatim>\<open>isoformat\<close> writes (date, any one
  separator character, \<^verbatim>\<open>HH:MM:SS\<close>, fraction, offset); any other text, and any field
  out of range, raises \<^verbatim>\<open>ValueError\<close>.
\<close>

definition parse_date :: "string \<Rightarrow> ((nat \<times> nat \<times> nat) \<times> string) option" where
  "parse_date s =
     (case parse_fixed 4 s 0 of
        None \<Rightarrow> None
      | Some (y, s1) \<Rightarrow>
         (case expect_char (CHR ''-'') s1 of
            None \<Rightarrow> None
          | Some s2 \<Rightarrow>
             (case parse_fixed 2 s2 0 of
                None \<Rightarrow> None
              | Some (mo, s3) \<Rightarrow>
                 (case expect_char (CHR ''-'') s3 of
                    None \<Rightarrow> None
                  | Some s4 \<Rightarrow>
                     (case parse_fixed 2 s4 0 of
                        None \<Rightarrow> None
                      | Some (dd, s5) \<Rightarrow> Some ((y, mo, dd), s5))))))"

definition parse_time :: "string \<Rightarrow> ((nat \<times> nat \<times> nat) \<times> string) option" where
  "parse_time s =
     (case parse_fixed 2 s 0 of
        None \<Rightarrow> None
      | Some (h, s1) \<Rightarrow>
         (case expect_char (CHR '':'') s1 of
            None \<Rightarrow> None
          | Some s2 \<Rightarrow>
             (case parse_fixed 2 s2 0 of
                None \<Rightarrow> None
              | Some (mi, s3) \<Rightarrow>
                 (case expect_char (CHR '':'') s3 of
                    None \<Rightarrow> None
                  | Some s4 \<Rightarrow>
                     (case parse_fixed 2 s4 0 of
                        None \<Rightarrow> None
                      | Some (se, s5) \<Rightarrow> Some ((h, mi, se), s5))))))"

definition fromisoformat :: "string \<Rightarrow> exn + pydatetime" where
  "fromisoformat s =
     (case parse_date s of
        None \<Rightarrow> Inl ValueError
      | Some ((y, mo, dd), s1) \<Rightarrow>
         (case s1 of
            [] \<Rightarrow> Inl ValueError
          | sep # s2 \<Rightarrow>
             (case parse_time s2 of
                None \<Rightarrow> Inl ValueError
              | Some ((h, mi, se), s3) \<Rightarrow>
                 (case parse_tail s3 of
                    None \<Rightarrow> Inl ValueError
                  | Some (us, off) \<Rightarrow>
                     (if valid_datetime
                           \<lparr>year = y, month = mo, day = dd, hour = h, minute = mi,
                            second = se, microsecond = us, utcoffset = off\<rparr>
                      then Inr \<lparr>year = y, month = mo, day = dd, hour = h, minute = mi,
                                second = se, microsecond = us, utcoffset = off\<rparr>
                      else Inl ValueError)))))"

section \<open>The collaborators: cache, persistent store, call trace\<close>

text \<open>
  The three key-value tables of \<^verbatim>\<open>operations.py\<close>. The accessors of the three are the
  same text up to the table name and the prefix of the cache key.
\<close>

datatype namespace = GuildConfig | GuildSetting | BotdetectConfig

fun cache_prefix :: "namespace \<Rightarrow> string" where
  "cache_prefix GuildConfig = ''guild_config''"
| "cache_prefix GuildSetting = ''guild_setting''"
| "cache_prefix BotdetectConfig = ''botdetect_config''"

text \<open>How the persistent store answers during a call.\<close>

datatype store_mode = Works | ReportsFailure | RaisesError

text \<open>A row of \<^verbatim>\<open>guild_api_keys\<close>.\<close>

record api_key_row =
  row_guild_id :: int
  row_api_provider :: string
  encrypted_api_key :: "string option"
  encrypted_github_auth_info :: "string option"
  row_created_at :: pydatetime
  row_updated_at :: pydatetime

text \<open>The view that a notification is rendered to (\<^verbatim>\<open>LoggingCog.LogView\<close>).\<close>

record log_view =
  view_title :: string
  view_description :: string
  view_author :: "int option"
  view_fields :: "string list"
  view_footer :: string

text \<open>The calls made to the collaborators, oldest first.\<close>

datatype call =
    CacheGet string
  | CacheSet string
  | CacheDelete string
  | StoreQuery string
  | StoreUpsert string
  | StoreDelete string
  | WebhookSend string string log_view

datatype send_outcome = Delivered | Forbidden | NotFound | HTTPException | ClientError | OtherError

record world =
  cache :: "string \<rightharpoonup> pyval"
  cache_up :: bool
  kv_table :: "namespace \<Rightarrow> (int \<times> string) \<rightharpoonup> pyval"
  kv_keys :: "namespace \<Rightarrow> (int \<times> string) list"
  log_event_toggles :: "(int \<times> string) \<rightharpoonup> bool"
  toggle_keys :: "(int \<times> string) list"
  guild_api_keys :: "int \<rightharpoonup> api_key_row"
  store_mode :: store_mode
  store_now :: pydatetime
  session_open :: bool
  from_url_ok :: "string \<Rightarrow> bool"
  send_outcome :: send_outcome
  bot_name :: string
  bot_id :: int
  clock :: int
  calls :: "call list"

definition record_call :: "call \<Rightarrow> world \<Rightarrow> world" where
  "record_call c w = w\<lparr>calls := calls w @ [c]\<rparr>"

text \<open>
  Modelled from the spec: the Cache Layer (\<^verbatim>\<open>database/cache.py\<close> is not among the sources).
  \<^verbatim>\<open>get(key) -> value or absent\<close>, \<^verbatim>\<open>set(key, value)\<close>, \<^verbatim>\<open>delete(key)\<close>; an unavailable
  cache is an always-miss and fails no caller. An absent entry reads as \<^verbatim>\<open>None\<close>.
\<close>

definition get_cache :: "world \<Rightarrow> string \<Rightarrow> pyval \<times> world" where
  "get_cache w key =
     ((if cache_up w then (case cache w key of None \<Rightarrow> PNone | Some v \<Rightarrow> v) else PNone),
      record_call (CacheGet key) w)"

definition set_cache :: "world \<Rightarrow> string \<Rightarrow> pyval \<Rightarrow> world" where
  "set_cache w key v =
     record_call (CacheSet key)
       (if cache_up w then w\<lparr>cache := (cache w)(key \<mapsto> v)\<rparr> else w)"

definition delete_cache :: "world \<Rightarrow> string \<Rightarrow> world" where
  "delete_cache w key =
     record_call (CacheDelete key)
       (if cache_up w then w\<lparr>cache := (cache w)(key := None)\<rparr> else w)"

text \<open>
  Modelled from the spec: the Persistent Store Adapter (\<^verbatim>\<open>database/connection.py\<close> is not
  among the sources). A point lookup gives the row or nothing; a listing gives the rows of
  the tenant, in the order in which their keys were first written (\<open>kv_keys\<close>,
  \<open>toggle_keys\<close>); an upsert keyed by the conflict columns and a delete by predicate report
  success. A failure is either reported (no row, \<^verbatim>\<open>False\<close>) or raised, and changes no row.
  The statement \<^verbatim>\<open>SELECT value FROM <table> WHERE guild_id = $1 AND key = $2\<close> with
  \<^verbatim>\<open>fetch_one=True\<close>:
\<close>

definition select_value :: "world \<Rightarrow> namespace \<Rightarrow> int \<Rightarrow> string \<Rightarrow> (exn + pyval option) \<times> world" where
  "select_value w ns guild_id key =
     ((case store_mode w of
         Works \<Rightarrow> Inr (kv_table w ns (guild_id, key))
       | ReportsFailure \<Rightarrow> Inr None
       | RaisesError \<Rightarrow> Inl StoreError),
      record_call (StoreQuery (cache_prefix ns)) w)"

text \<open>\<^verbatim>\<open>insert_or_update(<table>, ["guild_id", "key"], data)\<close>:\<close>

definition upsert_value :: "world \<Rightarrow> namespace \<Rightarrow> int \<Rightarrow> string \<Rightarrow> pyval \<Rightarrow> (exn + bool) \<times> world" where
  "upsert_value w ns guild_id key v =
     (case store_mode w of
        Works \<Rightarrow>
          (Inr True,
           record_call (StoreUpsert (cache_prefix ns))
             (w\<lparr>kv_table := (kv_table w)(ns := (kv_table w ns)((guild_id, key) \<mapsto> v)),
                kv_keys := (kv_keys w)(ns := List.insert (guild_id, key) (kv_keys w ns))\<rparr>))
      | ReportsFailure \<Rightarrow> (Inr False, record_call (StoreUpsert (cache_prefix ns)) w)
      | RaisesError \<Rightarrow> (Inl StoreError, record_call (StoreUpsert (cache_prefix ns)) w))"

text \<open>\<^verbatim>\<open>SELECT key, value FROM <table> WHERE guild_id = $1\<close> with \<^verbatim>\<open>fetch_all=True\<close>:\<close>

definition select_all_values ::
  "world \<Rightarrow> namespace \<Rightarrow> int \<Rightarrow> (exn + (string \<times> pyval) list) \<times> world" where
  "select_all_values w ns guild_id =
     ((case store_mode w of
         Works \<Rightarrow>
           Inr (List.map_filter
                  (\<lambda>(g, k). if g = guild_id then map_option (Pair k) (kv_table w ns (g, k))
                           else None)
                  (kv_keys w ns))
       | ReportsFailure \<Rightarrow> Inr []
       | RaisesError \<Rightarrow> Inl StoreError),
      record_call (StoreQuery (cache_prefix ns)) w)"

text \<open>\<^verbatim>\<open>SELECT enabled FROM log_event_toggles WHERE guild_id = $1 AND event_key = $2\<close>:\<close>

definition select_enabled :: "world \<Rightarrow> int \<Rightarrow> string \<Rightarrow> (exn + bool option) \<times> world" where
  "select_enabled w guild_id event_key =
     ((case store_mode w of
         Works \<Rightarrow> Inr (log_event_toggles w (guild_id, event_key))
       | ReportsFailure \<Rightarrow> Inr None
       | RaisesError \<Rightarrow> Inl StoreError),
      record_call (StoreQuery ''log_event_toggles'') w)"

text \<open>\<^verbatim>\<open>insert_or_update("log_event_toggles", ["guild_id", "event_key"], data)\<close>:\<close>

definition upsert_enabled :: "world \<Rightarrow> int \<Rightarrow> string \<Rightarrow> bool \<Rightarrow> (exn + bool) \<times> world" where
  "upsert_enabled w guild_id event_key enabled =
     (case store_mode w of
        Works \<Rightarrow>
          (Inr True,
           record_call (StoreUpsert ''log_event_toggles'')
             (w\<lparr>log_event_toggles := (log_event_toggles w)((guild_id, event_key) \<mapsto> enabled),
                toggle_keys := List.insert (guild_id, event_key) (toggle_keys w)\<rparr>))
      | ReportsFailure \<Rightarrow> (Inr False, record_call (StoreUpsert ''log_event_toggles'') w)
      | RaisesError \<Rightarrow> (Inl StoreError, record_call (StoreUpsert ''log_event_toggles'') w))"

text \<open>\<^verbatim>\<open>SELECT event_key, enabled FROM log_event_toggles WHERE guild_id = $1\<close>:\<close>

definition select_all_enabled :: "world \<Rightarrow> int \<Rightarrow> (exn + (string \<times> bool) list) \<times> world" where
  "select_all_enabled w guild_id =
     ((case store_mode w of
         Works \<Rightarrow>
           Inr (List.map_filter
                  (\<lambda>(g, k). if g = guild_id then map_option (Pair k) (log_event_toggles w (g, k))
                           else None)
                  (toggle_keys w))
       | ReportsFailure \<Rightarrow> Inr []
       | RaisesError \<Rightarrow> Inl StoreError),
      record_call (StoreQuery ''log_event_toggles'') w)"

section \<open>Key-value configuration (get_guild_config, set_guild_config and their siblings)\<close>

definition cache_key_of :: "namespace \<Rightarrow> int \<Rightarrow> string \<Rightarrow> string" where
  "cache_key_of ns guild_id key = cache_prefix ns @ '':'' @ str_of_int guild_id @ '':'' @ key"

text \<open>
  The value of a fetched row: a string is parsed as JSON, and kept as it is when it does
  not parse; any other value is kept.
\<close>

definition parse_stored :: "pyval \<Rightarrow> pyval" where
  "parse_stored v =
     (case v of
        PStr s \<Rightarrow> (case json_loads s of Inr x \<Rightarrow> x | Inl e \<Rightarrow> v)
      | _ \<Rightarrow> v)"

text \<open>
  The body shared by \<^verbatim>\<open>get_guild_config\<close>, \<^verbatim>\<open>get_guild_setting\<close> and
  \<^verbatim>\<open>get_botdetect_config\<close>. The cache is read before the \<^verbatim>\<open>try\<close>; everything after it
  is inside, and every exception there returns the default.
\<close>

definition kv_get :: "namespace \<Rightarrow> world \<Rightarrow> int \<Rightarrow> string \<Rightarrow> pyval \<Rightarrow> (exn + pyval) \<times> world" where
  "kv_get ns w guild_id key dflt =
     (case get_cache w (cache_key_of ns guild_id key) of
        (cached, w1) \<Rightarrow>
          (if cached \<noteq> PNone then (Inr cached, w1)
           else
             (case select_value w1 ns guild_id key of
                (Inl e, w2) \<Rightarrow> (Inr dflt, w2)
              | (Inr None, w2) \<Rightarrow> (Inr dflt, w2)
              | (Inr (Some v), w2) \<Rightarrow>
                  (Inr (parse_stored v),
                   set_cache w2 (cache_key_of ns guild_id key) (parse_stored v)))))"

text \<open>
  The body shared by \<^verbatim>\<open>set_guild_config\<close>, \<^verbatim>\<open>set_guild_setting\<close> and
  \<^verbatim>\<open>set_botdetect_config\<close>: all of it is inside the \<^verbatim>\<open>try\<close>, and every exception
  returns \<^verbatim>\<open>False\<close>.
\<close>

definition kv_set :: "namespace \<Rightarrow> world \<Rightarrow> int \<Rightarrow> string \<Rightarrow> pyval \<Rightarrow> (exn + bool) \<times> world" where
  "kv_set ns w guild_id key v =
     (case json_dumps v of
        Inl e \<Rightarrow> (Inr False, w)
      | Inr json_value \<Rightarrow>
          (case upsert_value w ns guild_id key (PStr json_value) of
             (Inl e, w1) \<Rightarrow> (Inr False, w1)
           | (Inr success, w1) \<Rightarrow>
               (if success then (Inr success, set_cache w1 (cache_key_of ns guild_id key) v)
                else (Inr success, w1))))"

definition get_guild_config :: "world \<Rightarrow> int \<Rightarrow> string \<Rightarrow> pyval \<Rightarrow> (exn + pyval) \<times> world" where
  "get_guild_config = kv_get GuildConfig"

definition set_guild_config :: "world \<Rightarrow> int \<Rightarrow> string \<Rightarrow> pyval \<Rightarrow> (exn + bool) \<times> world" where
  "set_guild_config = kv_set GuildConfig"

definition get_guild_setting :: "world \<Rightarrow> int \<Rightarrow> string \<Rightarrow> pyval \<Rightarrow> (exn + pyval) \<times> world" where
  "get_guild_setting = kv_get GuildSetting"

definition set_guild_setting :: "world \<Rightarrow> int \<Rightarrow> string \<Rightarrow> pyval \<Rightarrow> (exn + bool) \<times> world" where
  "set_guild_setting = kv_set GuildSetting"

definition get_botdetect_config :: "world \<Rightarrow> int \<Rightarrow> string \<Rightarrow> pyval \<Rightarrow> (exn + pyval) \<times> world" where
  "get_botdetect_config = kv_get BotdetectConfig"

definition set_botdetect_config :: "world \<Rightarrow> int \<Rightarrow> string \<Rightarrow> pyval \<Rightarrow> (exn + bool) \<times> world" where
  "set_botdetect_config = kv_set BotdetectConfig"

text \<open>
  The body shared by \<^verbatim>\<open>get_all_guild_config\<close> and \<^verbatim>\<open>get_all_botdetect_config\<close>: no
  cache call; each row's value goes into the dictionary under its key, parsed as in the
  point read; every exception returns the empty dictionary.
\<close>

definition kv_get_all ::
  "namespace \<Rightarrow> world \<Rightarrow> int \<Rightarrow> (exn + (string \<times> pyval) list) \<times> world" where
  "kv_get_all ns w guild_id =
     (case select_all_values w ns guild_id of
        (Inl e, w1) \<Rightarrow> (Inr [], w1)
      | (Inr results, w1) \<Rightarrow>
          (Inr (foldl (\<lambda>config (key, v). dict_set config key (parse_stored v)) [] results),
           w1))"

definition get_all_guild_config ::
  "world \<Rightarrow> int \<Rightarrow> (exn + (string \<times> pyval) list) \<times> world" where
  "get_all_guild_config = kv_get_all GuildConfig"

definition get_all_botdetect_config ::
  "world \<Rightarrow> int \<Rightarrow> (exn + (string \<times> pyval) list) \<times> world" where
  "get_all_botdetect_config = kv_get_all BotdetectConfig"

section \<open>Event toggles (get_log_event_enabled, set_log_event_enabled)\<close>

definition get_log_event_enabled :: "world \<Rightarrow> int \<Rightarrow> string \<Rightarrow> bool \<Rightarrow> (exn + bool) \<times> world" where
  "get_log_event_enabled w guild_id event_key default_enabled =
     (case select_enabled w guild_id event_key of
        (Inl e, w1) \<Rightarrow> (Inr default_enabled, w1)
      | (Inr None, w1) \<Rightarrow> (Inr default_enabled, w1)
      | (Inr (Some enabled), w1) \<Rightarrow> (Inr enabled, w1))"

definition set_log_event_enabled :: "world \<Rightarrow> int \<Rightarrow> string \<Rightarrow> bool \<Rightarrow> (exn + bool) \<times> world" where
  "set_log_event_enabled w guild_id event_key enabled =
     (case upsert_enabled w guild_id event_key enabled of
        (Inl e, w1) \<Rightarrow> (Inr False, w1)
      | (Inr success, w1) \<Rightarrow> (Inr success, w1))"

definition get_all_log_event_toggles ::
  "world \<Rightarrow> int \<Rightarrow> (exn + (string \<times> bool) list) \<times> world" where
  "get_all_log_event_toggles w guild_id =
     (case select_all_enabled w guild_id of
        (Inl e, w1) \<Rightarrow> (Inr [], w1)
      | (Inr results, w1) \<Rightarrow>
          (Inr (foldl (\<lambda>d (event_key, enabled). dict_set d event_key enabled) [] results), w1))"

text \<open>The number of store queries and of outbound webhook calls in a trace.\<close>

fun is_store_query :: "call \<Rightarrow> bool" where
  "is_store_query (StoreQuery t) = True"
| "is_store_query _ = False"

fun is_webhook_send :: "call \<Rightarrow> bool" where
  "is_webhook_send (WebhookSend u n v) = True"
| "is_webhook_send _ = False"

definition store_queries :: "world \<Rightarrow> nat" where
  "store_queries w = length (filter is_store_query (calls w))"

definition outbound_calls :: "world \<Rightarrow> nat" where
  "outbound_calls w = length (filter is_webhook_send (calls w))"

section \<open>Provider credentials (set_guild_api_key, get_guild_api_key)\<close>

text \<open>
  The Encryption Unit is the library's Fernet object; it is a parameter here:
  \<^verbatim>\<open>encrypt\<close> gives a token for a text, \<^verbatim>\<open>decrypt\<close> gives the text back or raises
  \<^verbatim>\<open>InvalidToken\<close>.
\<close>

record fernet =
  fernet_encrypt :: "string \<Rightarrow> string"
  fernet_decrypt :: "string \<Rightarrow> exn + string"

definition encrypt_data :: "fernet \<Rightarrow> string \<Rightarrow> string" where
  "encrypt_data f data = fernet_encrypt f data"

definition decrypt_data :: "fernet \<Rightarrow> string \<Rightarrow> exn + string" where
  "decrypt_data f encrypted_data = fernet_decrypt f encrypted_data"

text \<open>
  \<^verbatim>\<open>models.GuildAPIKey\<close> (\<^verbatim>\<open>database/models.py\<close> is not among the sources): an object with
  the six attributes that \<^verbatim>\<open>get_guild_api_key\<close> passes to its constructor. Python does
  not check their types, so each holds any value.
\<close>

record GuildAPIKey =
  guild_id :: pyval
  api_provider :: pyval
  api_key :: pyval
  github_auth_info :: pyval
  created_at :: pyval
  updated_at :: pyval

text \<open>\<^verbatim>\<open>guild_key.__dict__\<close>:\<close>

definition GuildAPIKey_dict :: "GuildAPIKey \<Rightarrow> pyval" where
  "GuildAPIKey_dict k =
     PDict [(''guild_id'', guild_id k), (''api_provider'', api_provider k),
            (''api_key'', api_key k), (''github_auth_info'', github_auth_info k),
            (''created_at'', created_at k), (''updated_at'', updated_at k)]"

definition GuildAPIKey_fields :: "string list" where
  "GuildAPIKey_fields =
     [''guild_id'', ''api_provider'', ''api_key'', ''github_auth_info'', ''created_at'',
      ''updated_at'']"

text \<open>
  \<^verbatim>\<open>GuildAPIKey(**cached)\<close>: \<^verbatim>\<open>TypeError\<close> when \<^verbatim>\<open>cached\<close> is not a mapping, has a key that
  is no attribute, or lacks one.
\<close>

definition GuildAPIKey_kwargs :: "pyval \<Rightarrow> exn + GuildAPIKey" where
  "GuildAPIKey_kwargs cached =
     (case cached of
        PDict kvs \<Rightarrow>
          (if list_all (\<lambda>kv. fst kv \<in> set GuildAPIKey_fields) kvs
              \<and> list_all (\<lambda>name. map_of kvs name \<noteq> None) GuildAPIKey_fields
           then Inr \<lparr>guild_id = the (map_of kvs ''guild_id''),
                     api_provider = the (map_of kvs ''api_provider''),
                     api_key = the (map_of kvs ''api_key''),
                     github_auth_info = the (map_of kvs ''github_auth_info''),
                     created_at = the (map_of kvs ''created_at''),
                     updated_at = the (map_of kvs ''updated_at'')\<rparr>
           else Inl TypeError)
      | _ \<Rightarrow> Inl TypeError)"

text \<open>\<^verbatim>\<open>SELECT * FROM guild_api_keys WHERE guild_id = $1\<close>:\<close>

definition select_api_key :: "world \<Rightarrow> int \<Rightarrow> (exn + api_key_row option) \<times> world" where
  "select_api_key w gid =
     ((case store_mode w of
         Works \<Rightarrow> Inr (guild_api_keys w gid)
       | ReportsFailure \<Rightarrow> Inr None
       | RaisesError \<Rightarrow> Inl StoreError),
      record_call (StoreQuery ''guild_api_keys'') w)"

text \<open>
  \<^verbatim>\<open>insert_or_update("guild_api_keys", ["guild_id"], data)\<close>. The two timestamps are the
  table's own columns: the creation time of a row that exists is kept.
\<close>

definition upsert_api_key ::
  "world \<Rightarrow> int \<Rightarrow> string \<Rightarrow> string option \<Rightarrow> string option \<Rightarrow> (exn + bool) \<times> world" where
  "upsert_api_key w gid provider enc_key enc_auth =
     (case store_mode w of
        Works \<Rightarrow>
          (Inr True,
           record_call (StoreUpsert ''guild_api_keys'')
             (w\<lparr>guild_api_keys := (guild_api_keys w)(gid \<mapsto>
                  \<lparr>row_guild_id = gid, row_api_provider = provider,
                   encrypted_api_key = enc_key, encrypted_github_auth_info = enc_auth,
                   row_created_at =
                     (case guild_api_keys w gid of
                        None \<Rightarrow> store_now w
                      | Some old \<Rightarrow> row_created_at old),
                   row_updated_at = store_now w\<rparr>)\<rparr>))
      | ReportsFailure \<Rightarrow> (Inr False, record_call (StoreUpsert ''guild_api_keys'') w)
      | RaisesError \<Rightarrow> (Inl StoreError, record_call (StoreUpsert ''guild_api_keys'') w))"

text \<open>
  The \<^verbatim>\<open>default\<close> hook of \<^verbatim>\<open>json.dumps\<close> is called on each object that has no JSON form,
  and its result is written in the object's place. \<^verbatim>\<open>datetime_converter\<close> returns the
  ISO text of a \<^verbatim>\<open>datetime\<close> and falls off its end, returning \<^verbatim>\<open>None\<close>, otherwise.
\<close>

fun datetime_converter :: "pyval \<Rightarrow> pyval" where
  "datetime_converter (PDatetime d) = PStr (isoformat d)"
| "datetime_converter _ = PNone"

fun apply_default :: "(pyval \<Rightarrow> pyval) \<Rightarrow> pyval \<Rightarrow> pyval"
and apply_default_elems :: "(pyval \<Rightarrow> pyval) \<Rightarrow> pyval list \<Rightarrow> pyval list"
and apply_default_members ::
  "(pyval \<Rightarrow> pyval) \<Rightarrow> (string \<times> pyval) list \<Rightarrow> (string \<times> pyval) list" where
  "apply_default f (PDatetime d) = f (PDatetime d)"
| "apply_default f (PList xs) = PList (apply_default_elems f xs)"
| "apply_default f (PDict kvs) = PDict (apply_default_members f kvs)"
| "apply_default f PNone = PNone"
| "apply_default f (PBool b) = PBool b"
| "apply_default f (PInt i) = PInt i"
| "apply_default f (PStr s) = PStr s"
| "apply_default f (PTuple xs) = PTuple (apply_default_elems f xs)"
| "apply_default_elems f [] = []"
| "apply_default_elems f (x # xs) = apply_default f x # apply_default_elems f xs"
| "apply_default_members f [] = []"
| "apply_default_members f ((k, v) # kvs) = (k, apply_default f v) # apply_default_members f kvs"

definition json_dumps_default :: "(pyval \<Rightarrow> pyval) \<Rightarrow> pyval \<Rightarrow> exn + string" where
  "json_dumps_default f v = json_dumps (apply_default f v)"

definition api_key_cache_key :: "int \<Rightarrow> string" where
  "api_key_cache_key gid = ''guild_api_key:'' @ str_of_int gid"

text \<open>
  The two encrypted columns that \<^verbatim>\<open>set_guild_api_key\<close> computes from the payload, or
  nothing when the payload has the wrong shape for the provider.
\<close>

definition encrypt_key_data ::
  "fernet \<Rightarrow> string \<Rightarrow> pyval \<Rightarrow> exn + (string option \<times> string option) option" where
  "encrypt_key_data f provider key_data =
     (case key_data of
        PDict kvs \<Rightarrow>
          (if provider = ''github_copilot'' then
             (case json_dumps_default datetime_converter key_data of
                Inl e \<Rightarrow> Inl e
              | Inr text \<Rightarrow>
                 (case json_dumps (PDict [(''data'', PStr (encrypt_data f text))]) of
                    Inl e \<Rightarrow> Inl e
                  | Inr wrapped \<Rightarrow> Inr (Some (None, Some wrapped))))
           else Inr None)
      | PStr secret \<Rightarrow> Inr (Some (Some (encrypt_data f secret), None))
      | _ \<Rightarrow> Inr None)"

definition set_guild_api_key ::
  "fernet \<Rightarrow> world \<Rightarrow> int \<Rightarrow> string \<Rightarrow> pyval \<Rightarrow> (exn + bool) \<times> world" where
  "set_guild_api_key f w gid provider key_data =
     (case encrypt_key_data f provider key_data of
        Inl e \<Rightarrow> (Inr False, w)
      | Inr None \<Rightarrow> (Inr False, w)
      | Inr (Some (enc_key, enc_auth)) \<Rightarrow>
          (case upsert_api_key w gid provider enc_key enc_auth of
             (Inl e, w1) \<Rightarrow> (Inr False, w1)
           | (Inr success, w1) \<Rightarrow>
               (if success then (Inr success, delete_cache w1 (api_key_cache_key gid))
                else (Inr success, w1))))"

text \<open>\<^verbatim>\<open>delete_record("guild_api_keys", "guild_id = $1", guild_id)\<close>:\<close>

definition delete_api_key :: "world \<Rightarrow> int \<Rightarrow> (exn + bool) \<times> world" where
  "delete_api_key w gid =
     (case store_mode w of
        Works \<Rightarrow>
          (Inr True,
           record_call (StoreDelete ''guild_api_keys'')
             (w\<lparr>guild_api_keys := (guild_api_keys w)(gid := None)\<rparr>))
      | ReportsFailure \<Rightarrow> (Inr False, record_call (StoreDelete ''guild_api_keys'') w)
      | RaisesError \<Rightarrow> (Inl StoreError, record_call (StoreDelete ''guild_api_keys'') w))"

definition remove_guild_api_key :: "world \<Rightarrow> int \<Rightarrow> (exn + bool) \<times> world" where
  "remove_guild_api_key w gid =
     (case delete_api_key w gid of
        (Inl e, w1) \<Rightarrow> (Inr False, w1)
      | (Inr success, w1) \<Rightarrow>
          (if success then (Inr success, delete_cache w1 (api_key_cache_key gid))
           else (Inr success, w1)))"

text \<open>\<^verbatim>\<open>needle in hay\<close> for two strings.\<close>

fun str_contains :: "string \<Rightarrow> string \<Rightarrow> bool" where
  "str_contains needle [] = (needle = [])"
| "str_contains needle (c # cs) =
     (strip_prefix needle (c # cs) \<noteq> None \<or> str_contains needle cs)"

text \<open>
  \<^verbatim>\<open>if "expires_at" in info: info["expires_at"] = datetime.fromisoformat(info["expires_at"])\<close>
  on whatever the decrypted JSON text held.
\<close>

definition restore_expires_at :: "pyval \<Rightarrow> exn + pyval" where
  "restore_expires_at info =
     (case info of
        PDict kvs \<Rightarrow>
          (case map_of kvs ''expires_at'' of
             None \<Rightarrow> Inr info
           | Some (PStr text) \<Rightarrow>
               (case fromisoformat text of
                  Inl e \<Rightarrow> Inl e
                | Inr d \<Rightarrow> Inr (PDict (dict_set kvs ''expires_at'' (PDatetime d))))
           | Some _ \<Rightarrow> Inl TypeError)
      | PList xs \<Rightarrow> (if PStr ''expires_at'' \<in> set xs then Inl TypeError else Inr info)
      | PTuple xs \<Rightarrow> (if PStr ''expires_at'' \<in> set xs then Inl TypeError else Inr info)
      | PStr s \<Rightarrow> (if str_contains ''expires_at'' s then Inl TypeError else Inr info)
      | _ \<Rightarrow> Inl TypeError)"

text \<open>The content of the \<^verbatim>\<open>encrypted_github_auth_info\<close> column, decoded.\<close>

definition decode_github_auth :: "fernet \<Rightarrow> string \<Rightarrow> exn + pyval" where
  "decode_github_auth f column =
     (case json_loads column of
        Inl e \<Rightarrow> Inl e
      | Inr (PDict kvs) \<Rightarrow>
          (case map_of kvs ''data'' of
             None \<Rightarrow> Inl KeyError
           | Some (PStr encrypted_string) \<Rightarrow>
               (case decrypt_data f encrypted_string of
                  Inl e \<Rightarrow> Inl e
                | Inr decrypted_auth_str \<Rightarrow>
                   (case json_loads decrypted_auth_str of
                      Inl e \<Rightarrow> Inl e
                    | Inr info \<Rightarrow> restore_expires_at info))
           | Some _ \<Rightarrow> Inl AttributeError)
      | Inr _ \<Rightarrow> Inl TypeError)"

text \<open>The part of \<^verbatim>\<open>get_guild_api_key\<close> that turns a fetched row into the object.\<close>

definition decode_row :: "fernet \<Rightarrow> api_key_row \<Rightarrow> exn + GuildAPIKey" where
  "decode_row f row =
     (case (case encrypted_api_key row of
              None \<Rightarrow> Inr PNone
            | Some enc \<Rightarrow>
                (if enc = [] then Inr PNone
                 else (case decrypt_data f enc of Inl e \<Rightarrow> Inl e | Inr k \<Rightarrow> Inr (PStr k)))) of
        Inl e \<Rightarrow> Inl e
      | Inr key \<Rightarrow>
         (case (case encrypted_github_auth_info row of
                  None \<Rightarrow> Inr PNone
                | Some column \<Rightarrow>
                    (if column = [] then Inr PNone else decode_github_auth f column)) of
            Inl e \<Rightarrow> Inl e
          | Inr info \<Rightarrow>
              Inr \<lparr>guild_id = PInt (row_guild_id row),
                   api_provider = PStr (row_api_provider row),
                   api_key = key, github_auth_info = info,
                   created_at = PDatetime (row_created_at row),
                   updated_at = PDatetime (row_updated_at row)\<rparr>))"

text \<open>
  \<^verbatim>\<open>get_guild_api_key\<close>: the cache read and \<^verbatim>\<open>GuildAPIKey(**cached)\<close> come before the
  \<^verbatim>\<open>try\<close>; everything after is inside it, and every exception there returns \<^verbatim>\<open>None\<close>.
\<close>

definition get_guild_api_key ::
  "fernet \<Rightarrow> world \<Rightarrow> int \<Rightarrow> (exn + GuildAPIKey option) \<times> world" where
  "get_guild_api_key f w gid =
     (case get_cache w (api_key_cache_key gid) of
        (cached, w1) \<Rightarrow>
          (if truthy cached then
             (case GuildAPIKey_kwargs cached of
                Inl e \<Rightarrow> (Inl e, w1)
              | Inr k \<Rightarrow> (Inr (Some k), w1))
           else
             (case select_api_key w1 gid of
                (Inl e, w2) \<Rightarrow> (Inr None, w2)
              | (Inr None, w2) \<Rightarrow> (Inr None, w2)
              | (Inr (Some row), w2) \<Rightarrow>
                  (case decode_row f row of
                     Inl e \<Rightarrow> (Inr None, w2)
                   | Inr guild_key \<Rightarrow>
                       (Inr (Some guild_key),
                        set_cache w2 (api_key_cache_key gid) (GuildAPIKey_dict guild_key))))))"

text \<open>
  What the cache answers under a credential key without making \<^verbatim>\<open>GuildAPIKey(**cached)\<close>
  raise: nothing, a falsy value, or a dictionary with the attributes of a \<^verbatim>\<open>GuildAPIKey\<close>
  as its keys, such as the \<^verbatim>\<open>__dict__\<close> that \<^verbatim>\<open>get_guild_api_key\<close> stores there.
\<close>

definition api_key_cache_ok :: "world \<Rightarrow> int \<Rightarrow> bool" where
  "api_key_cache_ok w gid =
     (case fst (get_cache w (api_key_cache_key gid)) of cached \<Rightarrow>
        (if truthy cached
         then (case GuildAPIKey_kwargs cached of Inl e \<Rightarrow> False | Inr k \<Rightarrow> True)
         else True))"

section \<open>The event relay (LoggingCog)\<close>

record user =
  user_id :: int
  user_name :: string
  user_discriminator :: string
  user_display_name :: string
  user_is_member :: bool
  user_bot :: bool
  user_created_at :: int

record message =
  message_id :: int
  message_guild :: "int option"
  message_author :: user
  channel_mention :: string
  content :: string
  jump_url :: string

text \<open>
  Modelled from the spec: \<^verbatim>\<open>settings_manager\<close> (\<^verbatim>\<open>cogs/logging_helpers\<close> is not among the
  sources). The delivery target of a tenant is read through the Config/Secret Store, from
  the setting namespace, and the toggle check is \<^verbatim>\<open>get_event_toggle\<close>. The name of the
  setting key is not in the sources; any fixed key behaves alike.
\<close>

definition get_logging_webhook :: "world \<Rightarrow> int \<Rightarrow> (exn + pyval) \<times> world" where
  "get_logging_webhook w gid = get_guild_setting w gid ''logging_webhook_url'' PNone"

definition is_log_event_enabled :: "world \<Rightarrow> int \<Rightarrow> string \<Rightarrow> bool \<Rightarrow> (exn + bool) \<times> world" where
  "is_log_event_enabled w gid event_key default_enabled =
     get_log_event_enabled w gid event_key default_enabled"

text \<open>\<^verbatim>\<open>discord.utils.format_dt\<close>: a time stamp, in seconds, and a style letter.\<close>

definition format_dt :: "int \<Rightarrow> string \<Rightarrow> string" where
  "format_dt t style = ''<t:'' @ str_of_int t @ '':'' @ style @ ''>''"

fun join_bar :: "string list \<Rightarrow> string" where
  "join_bar [] = []"
| "join_bar [x] = x"
| "join_bar (x # y # ys) = x @ '' | '' @ join_bar (y # ys)"

definition user_display :: "user \<Rightarrow> string" where
  "user_display u =
     (if user_is_member u then user_display_name u else user_name u) @ '' ('' @
     user_name u @ ''#'' @ user_discriminator u @ '') [ID: '' @ str_of_int (user_id u) @ '']''"

text \<open>
  \<^verbatim>\<open>_create_log_embed\<close>, that is \<^verbatim>\<open>LogView.__init__\<close>, with no footer argument, as every
  listener calls it. (The pictograph that starts each title in the source lies outside
  the characters modelled and is left out.)
\<close>

definition create_log_embed :: "world \<Rightarrow> string \<Rightarrow> string \<Rightarrow> user option \<Rightarrow> log_view" where
  "create_log_embed w title description author =
     \<lparr>view_title = ''**'' @ title @ ''**'',
      view_description = description,
      view_author = map_option user_id author,
      view_fields = [],
      view_footer =
        join_bar
          ([format_dt (clock w) ''f'', ''Bot ID: '' @ str_of_int (bot_id w)] @
           (case author of None \<Rightarrow> [] | Some u \<Rightarrow> [''User ID: '' @ str_of_int (user_id u)]))\<rparr>"

definition add_field :: "log_view \<Rightarrow> string \<Rightarrow> string \<Rightarrow> log_view" where
  "add_field view name v =
     view\<lparr>view_fields := view_fields view @ [''**'' @ name @ '':** '' @ v]\<rparr>"

text \<open>\<^verbatim>\<open>_add_id_footer\<close>, given the target's id and its jump link when it has one.\<close>

definition add_id_footer :: "log_view \<Rightarrow> int \<Rightarrow> string option \<Rightarrow> string \<Rightarrow> log_view" where
  "add_id_footer view target_id link id_name =
     (if target_id = 0 then view
      else view\<lparr>view_footer :=
             view_footer view @ (if view_footer view = [] then [] else '' | '') @
             join_bar ([id_name @ '': '' @ str_of_int target_id] @
                       (case link of None \<Rightarrow> [] | Some l \<Rightarrow> [l]))\<rparr>)"

text \<open>\<^verbatim>\<open>discord.Webhook.from_url\<close>: a \<^verbatim>\<open>ValueError\<close> on a text that is no webhook URL.\<close>

definition webhook_from_url :: "world \<Rightarrow> pyval \<Rightarrow> exn + string" where
  "webhook_from_url w url =
     (case url of
        PStr u \<Rightarrow> (if from_url_ok w u then Inr u else Inl ValueError)
      | _ \<Rightarrow> Inl TypeError)"

text \<open>
  \<^verbatim>\<open>_send_log_embed\<close>. One call of \<^verbatim>\<open>webhook.send\<close> is one outbound transport call,
  whatever its outcome; each of its exceptions is caught and logged.
\<close>

definition send_log_embed :: "world \<Rightarrow> int \<Rightarrow> log_view \<Rightarrow> (exn + unit) \<times> world" where
  "send_log_embed w gid view =
     (if \<not> session_open w then (Inr (), w)
      else
        (case get_logging_webhook w gid of
           (Inl e, w1) \<Rightarrow> (Inl e, w1)
         | (Inr webhook_url, w1) \<Rightarrow>
             (if \<not> truthy webhook_url then (Inr (), w1)
              else
                (case webhook_from_url w1 webhook_url of
                   Inl e \<Rightarrow> (Inr (), w1)
                 | Inr u \<Rightarrow>
                     (Inr (), record_call (WebhookSend u (bot_name w1 @ '' Logs'') view) w1)))))"

definition check_log_enabled :: "world \<Rightarrow> int \<Rightarrow> string \<Rightarrow> (exn + bool) \<times> world" where
  "check_log_enabled w gid event_key =
     (case get_logging_webhook w gid of
        (Inl e, w1) \<Rightarrow> (Inl e, w1)
      | (Inr webhook_url, w1) \<Rightarrow>
          (if \<not> truthy webhook_url then (Inr False, w1)
           else is_log_event_enabled w1 gid event_key True))"

text \<open>
  The shape shared by the six listeners: check the toggle, and when it is on, send the
  view that the listener built.
\<close>

definition relay :: "world \<Rightarrow> int \<Rightarrow> string \<Rightarrow> log_view \<Rightarrow> (exn + unit) \<times> world" where
  "relay w gid event_key view =
     (case check_log_enabled w gid event_key of
        (Inl e, w1) \<Rightarrow> (Inl e, w1)
      | (Inr enabled, w1) \<Rightarrow>
          (if \<not> enabled then (Inr (), w1) else send_log_embed w1 gid view))"

definition on_member_join :: "world \<Rightarrow> int \<Rightarrow> user \<Rightarrow> (exn + unit) \<times> world" where
  "on_member_join w gid member =
     relay w gid ''member_join''
       (add_field
          (create_log_embed w ''Member Joined'' (user_display member @ '' joined the server.'')
             (Some member))
          ''Account Created'' (format_dt (user_created_at member) ''F''))"

definition on_member_remove :: "world \<Rightarrow> int \<Rightarrow> user \<Rightarrow> (exn + unit) \<times> world" where
  "on_member_remove w gid member =
     relay w gid ''member_remove''
       (add_id_footer
          (create_log_embed w ''Member Left'' (user_display member @ '' left the server.'')
             (Some member))
          (user_id member) None ''User ID'')"

definition on_member_ban :: "world \<Rightarrow> int \<Rightarrow> user \<Rightarrow> (exn + unit) \<times> world" where
  "on_member_ban w gid u =
     relay w gid ''member_ban_event''
       (add_id_footer
          (create_log_embed w ''Member Banned (Event)''
             (user_display u @ '' was banned.'' @ [CHR 0x0A] @
              ''*Audit log may contain moderator and reason.*'')
             (Some u))
          (user_id u) None ''User ID'')"

definition on_member_unban :: "world \<Rightarrow> int \<Rightarrow> user \<Rightarrow> (exn + unit) \<times> world" where
  "on_member_unban w gid u =
     relay w gid ''member_unban''
       (add_id_footer
          (create_log_embed w ''Member Unbanned'' (user_display u @ '' was unbanned.'') (Some u))
          (user_id u) None ''User ID'')"

text \<open>The field value that \<^verbatim>\<open>on_message_delete\<close> shows for the deleted content.\<close>

definition deleted_content :: "string \<Rightarrow> string" where
  "deleted_content c = (if length c > 1000 then take 997 c @ ''...'' else c)"

text \<open>The field value that \<^verbatim>\<open>on_message_edit\<close> shows for the text before and after.\<close>

definition edited_content :: "string \<Rightarrow> string" where
  "edited_content c = (if length c > 500 then take 497 c @ ''...'' else c)"

definition message_delete_view :: "world \<Rightarrow> message \<Rightarrow> log_view" where
  "message_delete_view w m =
     add_id_footer
       ((if content m \<noteq> [] then (\<lambda>e. add_field e ''Content'' (deleted_content (content m)))
         else (\<lambda>e. e))
          (create_log_embed w ''Message Deleted''
             (''Message by '' @ user_display (message_author m) @ '' deleted in '' @
              channel_mention m)
             (Some (message_author m))))
       (message_id m) (Some (''[Jump]('' @ jump_url m @ '')'')) ''Message ID''"

definition on_message_delete :: "world \<Rightarrow> message \<Rightarrow> (exn + unit) \<times> world" where
  "on_message_delete w m =
     (case message_guild m of
        None \<Rightarrow> (Inr (), w)
      | Some gid \<Rightarrow>
          (if user_bot (message_author m) then (Inr (), w)
           else relay w gid ''message_delete'' (message_delete_view w m)))"

definition message_edit_view :: "world \<Rightarrow> message \<Rightarrow> message \<Rightarrow> log_view" where
  "message_edit_view w before after =
     add_id_footer
       ((if content after \<noteq> [] then (\<lambda>e. add_field e ''After'' (edited_content (content after)))
         else (\<lambda>e. e))
          ((if content before \<noteq> []
            then (\<lambda>e. add_field e ''Before'' (edited_content (content before)))
            else (\<lambda>e. e))
             (create_log_embed w ''Message Edited''
                (''Message by '' @ user_display (message_author after) @ '' edited in '' @
                 channel_mention after)
                (Some (message_author after)))))
       (message_id after) (Some (''[Jump]('' @ jump_url after @ '')'')) ''Message ID''"

definition on_message_edit :: "world \<Rightarrow> message \<Rightarrow> message \<Rightarrow> (exn + unit) \<times> world" where
  "on_message_edit w before after =
     (case message_guild after of
        None \<Rightarrow> (Inr (), w)
      | Some gid \<Rightarrow>
          (if user_bot (message_author after) \<or> content before = content after then (Inr (), w)
           else relay w gid ''message_edit'' (message_edit_view w before after)))"

text \<open>The domain events, the listener of each, its tenant and its event key.\<close>

datatype event =
    MemberJoin int user
  | MemberRemove int user
  | MemberBan int user
  | MemberUnban int user
  | MessageDelete message
  | MessageEdit message message

fun handle_event :: "world \<Rightarrow> event \<Rightarrow> (exn + unit) \<times> world" where
  "handle_event w (MemberJoin gid u) = on_member_join w gid u"
| "handle_event w (MemberRemove gid u) = on_member_remove w gid u"
| "handle_event w (MemberBan gid u) = on_member_ban w gid u"
| "handle_event w (MemberUnban gid u) = on_member_unban w gid u"
| "handle_event w (MessageDelete m) = on_message_delete w m"
| "handle_event w (MessageEdit before after) = on_message_edit w before after"

fun event_guild :: "event \<Rightarrow> int option" where
  "event_guild (MemberJoin gid u) = Some gid"
| "event_guild (MemberRemove gid u) = Some gid"
| "event_guild (MemberBan gid u) = Some gid"
| "event_guild (MemberUnban gid u) = Some gid"
| "event_guild (MessageDelete m) = message_guild m"
| "event_guild (MessageEdit before after) = message_guild after"

fun event_key_of :: "event \<Rightarrow> string" where
  "event_key_of (MemberJoin gid u) = ''member_join''"
| "event_key_of (MemberRemove gid u) = ''member_remove''"
| "event_key_of (MemberBan gid u) = ''member_ban_event''"
| "event_key_of (MemberUnban gid u) = ''member_unban''"
| "event_key_of (MessageDelete m) = ''message_delete''"
| "event_key_of (MessageEdit before after) = ''message_edit''"

text \<open>
  The events that a listener does not drop by itself before the toggle check: a message
  event is dropped when its author is a bot, and an edit when the text did not change.
\<close>

fun loggable :: "event \<Rightarrow> bool" where
  "loggable (MessageDelete m) = (\<not> user_bot (message_author m))"
| "loggable (MessageEdit before after) =
     (\<not> user_bot (message_author after) \<and> content before \<noteq> content after)"
| "loggable _ = True"

text \<open>
  The value that the shared \<^verbatim>\<open>get\<close> body returns in a state, written as a function of
  the state alone (see \<open>kv_get_value\<close>).
\<close>

definition lookup_value :: "namespace \<Rightarrow> world \<Rightarrow> int \<Rightarrow> string \<Rightarrow> pyval \<Rightarrow> pyval" where
  "lookup_value ns w gid key dflt =
     (if fst (get_cache w (cache_key_of ns gid key)) \<noteq> PNone
      then fst (get_cache w (cache_key_of ns gid key))
      else (case fst (select_value w ns gid key) of
              Inr (Some v) \<Rightarrow> parse_stored v
            | _ \<Rightarrow> dflt))"

fun is_dict :: "pyval \<Rightarrow> bool" where
  "is_dict (PDict kvs) = True"
| "is_dict _ = False"

fun is_str :: "pyval \<Rightarrow> bool" where
  "is_str (PStr s) = True"
| "is_str _ = False"

text \<open>
  A JSON document: no \<^verbatim>\<open>datetime\<close> and no tuple in it, and the keys of each
  dictionary distinct, as the keys of a Python \<^verbatim>\<open>dict\<close> are.
\<close>

fun json_doc :: "pyval \<Rightarrow> bool"
and json_docs :: "pyval list \<Rightarrow> bool"
and json_members :: "(string \<times> pyval) list \<Rightarrow> bool" where
  "json_doc (PList xs) = json_docs xs"
| "json_doc (PDict kvs) = (distinct (map fst kvs) \<and> json_members kvs)"
| "json_doc (PDatetime d) = False"
| "json_doc (PTuple xs) = False"
| "json_doc PNone = True"
| "json_doc (PBool b) = True"
| "json_doc (PInt i) = True"
| "json_doc (PStr s) = True"
| "json_docs [] = True"
| "json_docs (x # xs) = (json_doc x \<and> json_docs xs)"
| "json_members [] = True"
| "json_members ((k, v) # kvs) = (json_doc v \<and> json_members kvs)"

text \<open>What may follow a number in a text: nothing, or a character that does not extend it.\<close>

definition ok_follow :: "string \<Rightarrow> bool" where
  "ok_follow r =
     (case r of
        [] \<Rightarrow> True
      | c # _ \<Rightarrow> \<not> is_digit c \<and> c \<noteq> CHR ''.'' \<and> c \<noteq> CHR ''e'' \<and> c \<noteq> CHR ''E'')"

text \<open>The views that the outbound calls of a trace carried, oldest first.\<close>

fun sent_view :: "call \<Rightarrow> log_view list" where
  "sent_view (WebhookSend u n v) = [v]"
| "sent_view _ = []"

definition delivered_views :: "world \<Rightarrow> log_view list" where
  "delivered_views w = concat (map sent_view (calls w))"

text \<open>The views delivered between an earlier state and a later one.\<close>

definition new_views :: "world \<Rightarrow> world \<Rightarrow> log_view list" where
  "new_views w w' = drop (length (delivered_views w)) (delivered_views w')"

section \<open>Example states\<close>

definition example_time :: pydatetime where
  "example_time =
     \<lparr>year = 2024, month = 1, day = 2, hour = 3, minute = 4, second = 5,
      microsecond = 0, utcoffset = None\<rparr>"

text \<open>A running bot with nothing stored and nothing cached.\<close>

definition fresh_world :: world where
  "fresh_world =
     \<lparr>cache = Map.empty, cache_up = True, kv_table = (\<lambda>ns. Map.empty),
      kv_keys = (\<lambda>ns. []), log_event_toggles = Map.empty, toggle_keys = [],
      guild_api_keys = Map.empty, store_mode = Works,
      store_now = example_time, session_open = True, from_url_ok = (\<lambda>u. True),
      send_outcome = Delivered, bot_name = ''OpenGuard'', bot_id = 1, clock = 0,
      calls = []\<rparr>"

text \<open>Guild 5 has switched the \<^verbatim>\<open>message_delete\<close> event off.\<close>

definition toggled_off_world :: world where
  "toggled_off_world =
     fresh_world\<lparr>log_event_toggles := [(5, ''message_delete'') \<mapsto> False],
                  toggle_keys := [(5, ''message_delete'')]\<rparr>"

text \<open>The store refuses every write; one configuration value is cached.\<close>

definition failing_store_world :: world where
  "failing_store_world =
     fresh_world\<lparr>store_mode := ReportsFailure,
                  cache := [''guild_config:5:prefix'' \<mapsto> PStr ''!'']\<rparr>"

text \<open>Guild 5 has set its delivery target; the store holds the JSON text of the URL.\<close>

definition configured_world :: world where
  "configured_world =
     fresh_world\<lparr>kv_table := (\<lambda>ns. Map.empty)
       (GuildSetting := [(5, ''logging_webhook_url'') \<mapsto>
          PStr ([CHR 0x22] @ ''https://hook.example/abc'' @ [CHR 0x22])]),
       kv_keys := (\<lambda>ns. [])(GuildSetting := [(5, ''logging_webhook_url'')])\<rparr>"

text \<open>The same tenant, with the \<^verbatim>\<open>message_delete\<close> event switched off.\<close>

definition configured_off_world :: world where
  "configured_off_world =
     configured_world\<lparr>log_event_toggles := [(5, ''message_delete'') \<mapsto> False],
                       toggle_keys := [(5, ''message_delete'')]\<rparr>"

definition example_user :: user where
  "example_user =
     \<lparr>user_id = 42, user_name = ''ada'', user_discriminator = ''0'',
      user_display_name = ''Ada'', user_is_member = True, user_bot = False,
      user_created_at = 1700000000\<rparr>"

definition example_message :: message where
  "example_message =
     \<lparr>message_id = 77, message_guild = Some 5, message_author = example_user,
      channel_mention = ''<#9>'', content = ''hello'', jump_url = ''https://discord.com/m/77''\<rparr>"


text \<open>The same message, written by a bot account.\<close>

definition bot_message :: message where
  "bot_message = example_message\<lparr>message_author := example_user\<lparr>user_bot := True\<rparr>\<rparr>"

text \<open>A message of 1500 characters.\<close>

definition long_message :: message where
  "long_message = example_message\<lparr>content := replicate 1500 (CHR ''a'')\<rparr>"

text \<open>The configured tenant, while the HTTP session of the relay is closed.\<close>

definition closed_session_world :: world where
  "closed_session_world = configured_world\<lparr>session_open := False\<rparr>"

text \<open>The cache answers the credential key of guild 5 with a value that is no mapping.\<close>

definition bad_cache_world :: world where
  "bad_cache_world = fresh_world\<lparr>cache := [''guild_api_key:5'' \<mapsto> PInt 1]\<rparr>"

text \<open>A stand-in for the Fernet object: a token is the text behind a fixed prefix.\<close>

definition example_fernet :: fernet where
  "example_fernet =
     \<lparr>fernet_encrypt = (\<lambda>s. ''gAAAAA'' @ s),
      fernet_decrypt =
        (\<lambda>t. case strip_prefix ''gAAAAA'' t of None \<Rightarrow> Inl InvalidToken | Some s \<Rightarrow> Inr s)\<rparr>"

text \<open>Guild 5 has a credential row whose ciphertext is not a token of the current key.\<close>

definition corrupt_key_world :: world where
  "corrupt_key_world =
     fresh_world\<lparr>guild_api_keys := [5 \<mapsto>
       \<lparr>row_guild_id = 5, row_api_provider = ''openai'',
        encrypted_api_key = Some ''not-a-token'', encrypted_github_auth_info = None,
        row_created_at = example_time, row_updated_at = example_time\<rparr>]\<rparr>"

section \<open>Helper facts\<close>

lemma kv_get_total_miss:
  assumes "fst (get_cache w (cache_key_of ns gid key)) = PNone"
    and "kv_table w ns (gid, key) = None"
  shows "fst (kv_get ns w gid key dflt) = Inr dflt"
    and "cache (snd (kv_get ns w gid key dflt)) = cache w"
  using assms
  by (cases "store_mode w";
      simp add: kv_get_def get_cache_def select_value_def record_call_def)+

lemma kv_set_not_persisted:
  assumes "store_mode w \<noteq> Works \<or> \<not> serializable v"
  shows "fst (kv_set ns w gid key v) = Inr False"
    and "cache (snd (kv_set ns w gid key v)) = cache w"
  using assms
  by (cases "store_mode w";
      simp add: kv_set_def json_dumps_def upsert_value_def record_call_def)+

lemma kv_set_cache_changed:
  assumes "cache (snd (kv_set ns w gid key v)) \<noteq> cache w"
  shows "fst (kv_set ns w gid key v) = Inr True"
    and "kv_table (snd (kv_set ns w gid key v)) ns (gid, key) = Some (PStr (encode v))"
  using assms
  by (cases "store_mode w"; cases "serializable v";
      simp add: kv_set_def json_dumps_def upsert_value_def record_call_def set_cache_def)+

section \<open>Event toggles and the cache\<close>

text \<open>
  Claim C3, as stated, fails: the toggle read does not look at the cache, leaves it
  empty after a store hit, and the next read queries the store again. In the state
  where guild 5 has switched \<^verbatim>\<open>message_delete\<close> off, the first read makes one call, a
  store query; the cache is empty afterwards; the second read adds a second store query.
\<close>

theorem toggle_read_not_cache_aside:
  "calls (snd (get_log_event_enabled toggled_off_world 5 ''message_delete'' True))
     = [StoreQuery ''log_event_toggles'']
   \<and> dom (cache (snd (get_log_event_enabled toggled_off_world 5 ''message_delete'' True))) = {}
   \<and> store_queries
        (snd (get_log_event_enabled
               (snd (get_log_event_enabled toggled_off_world 5 ''message_delete'' True))
               5 ''message_delete'' True)) = 2"
  by (simp add: get_log_event_enabled_def select_enabled_def toggled_off_world_def
      fresh_world_def record_call_def store_queries_def)

text \<open>
  Claim C3, amended: the toggle operations bypass the cache. Every read makes exactly one
  call to a collaborator, a store query, and returns the stored flag when the store
  answers with a row and the default otherwise; the write makes exactly one call, the
  upsert; neither changes the cache.
\<close>

theorem toggle_operations_bypass_cache:
  "calls (snd (get_log_event_enabled w gid event_key dflt))
     = calls w @ [StoreQuery ''log_event_toggles'']
   \<and> cache (snd (get_log_event_enabled w gid event_key dflt)) = cache w
   \<and> fst (get_log_event_enabled w gid event_key dflt)
       = Inr (case (store_mode w, log_event_toggles w (gid, event_key)) of
                (Works, Some enabled) \<Rightarrow> enabled
              | _ \<Rightarrow> dflt)
   \<and> calls (snd (set_log_event_enabled w gid event_key enabled))
       = calls w @ [StoreUpsert ''log_event_toggles'']
   \<and> cache (snd (set_log_event_enabled w gid event_key enabled)) = cache w"
  by (cases "store_mode w"; cases "log_event_toggles w (gid, event_key)";
      simp add: get_log_event_enabled_def set_log_event_enabled_def select_enabled_def
        upsert_enabled_def record_call_def)

text \<open>
  Claim C4: an event key that was never toggled reads as enabled under the default
  \<^verbatim>\<open>True\<close>; after \<^verbatim>\<open>set_log_event_enabled(..., False)\<close> has reported success the read
  gives \<^verbatim>\<open>False\<close>, and it still does whatever the cache holds afterwards, an emptied or
  unavailable cache included.
\<close>

theorem toggle_default_and_persistence:
  assumes "log_event_toggles w (gid, event_key) = None"
    and "fst (set_log_event_enabled w gid event_key False) = Inr True"
  shows "fst (get_log_event_enabled w gid event_key True) = Inr True
   \<and> fst (get_log_event_enabled (snd (set_log_event_enabled w gid event_key False))
            gid event_key True) = Inr False
   \<and> (\<forall>c up. fst (get_log_event_enabled
                     ((snd (set_log_event_enabled w gid event_key False))
                        \<lparr>cache := c, cache_up := up\<rparr>)
                     gid event_key True) = Inr False)"
  using assms
  by (cases "store_mode w";
      simp add: get_log_event_enabled_def set_log_event_enabled_def select_enabled_def
        upsert_enabled_def record_call_def)

theorem toggle_default_and_persistence_witness:
  "log_event_toggles fresh_world (5, ''member_join'') = None
   \<and> fst (set_log_event_enabled fresh_world 5 ''member_join'' False) = Inr True
   \<and> fst (get_log_event_enabled fresh_world 5 ''member_join'' True) = Inr True
   \<and> fst (get_log_event_enabled
            ((snd (set_log_event_enabled fresh_world 5 ''member_join'' False))
               \<lparr>cache := Map.empty, cache_up := True\<rparr>)
            5 ''member_join'' True) = Inr False"
proof -
  have h1: "log_event_toggles fresh_world (5, ''member_join'') = None"
    by (simp add: fresh_world_def)
  have h2: "fst (set_log_event_enabled fresh_world 5 ''member_join'' False) = Inr True"
    by (simp add: fresh_world_def set_log_event_enabled_def upsert_enabled_def)
  from toggle_default_and_persistence [OF h1 h2] h1 h2 show ?thesis by blast
qed

section \<open>Writes reach the cache only through the store\<close>

text \<open>
  Claim C5: when the upsert of \<^verbatim>\<open>set_guild_config\<close>, \<^verbatim>\<open>set_guild_setting\<close> or
  \<^verbatim>\<open>set_botdetect_config\<close> does not succeed (the store reports failure or raises, or
  the value does not serialize so that no upsert is made), the operation returns
  \<^verbatim>\<open>False\<close> and the cache is left as it was.
\<close>

theorem failed_write_leaves_cache:
  assumes "store_mode w \<noteq> Works \<or> \<not> serializable v"
  shows "fst (set_guild_config w gid key v) = Inr False
   \<and> cache (snd (set_guild_config w gid key v)) = cache w
   \<and> fst (set_guild_setting w gid key v) = Inr False
   \<and> cache (snd (set_guild_setting w gid key v)) = cache w
   \<and> fst (set_botdetect_config w gid key v) = Inr False
   \<and> cache (snd (set_botdetect_config w gid key v)) = cache w"
  using kv_set_not_persisted [OF assms]
  by (simp add: set_guild_config_def set_guild_setting_def set_botdetect_config_def)

theorem failed_write_leaves_cache_witness:
  "store_mode failing_store_world = ReportsFailure
   \<and> fst (set_guild_config failing_store_world 5 ''prefix'' (PStr ''?'')) = Inr False
   \<and> cache (snd (set_guild_config failing_store_world 5 ''prefix'' (PStr ''?'')))
        ''guild_config:5:prefix'' = Some (PStr ''!'')"
proof -
  have h: "store_mode failing_store_world \<noteq> Works \<or> \<not> serializable (PStr ''?'')"
    by (simp add: failing_store_world_def fresh_world_def)
  have c: "cache failing_store_world ''guild_config:5:prefix'' = Some (PStr ''!'')"
    by (simp add: failing_store_world_def fresh_world_def)
  have m: "store_mode failing_store_world = ReportsFailure"
    by (simp add: failing_store_world_def fresh_world_def)
  from failed_write_leaves_cache [OF h, of 5 "''prefix''"] m c show ?thesis by simp
qed

section \<open>A total miss returns the default and caches nothing\<close>

text \<open>
  Claim C6: when the cache has no entry for the key and the store has no row for it,
  \<^verbatim>\<open>get_guild_config\<close> returns the caller's default and leaves the cache as it was,
  however the store behaves during the call.
\<close>

theorem total_miss_returns_default:
  assumes "fst (get_cache w (cache_key_of GuildConfig gid key)) = PNone"
    and "kv_table w GuildConfig (gid, key) = None"
  shows "fst (get_guild_config w gid key dflt) = Inr dflt
   \<and> cache (snd (get_guild_config w gid key dflt)) = cache w"
  using kv_get_total_miss [OF assms] by (simp add: get_guild_config_def)

theorem total_miss_returns_default_witness:
  "fst (get_cache fresh_world (cache_key_of GuildConfig 5 ''prefix'')) = PNone
   \<and> kv_table fresh_world GuildConfig (5, ''prefix'') = None
   \<and> fst (get_guild_config fresh_world 5 ''prefix'' (PStr ''!'')) = Inr (PStr ''!'')
   \<and> cache (snd (get_guild_config fresh_world 5 ''prefix'' (PStr ''!''))) = cache fresh_world"
proof -
  have h1: "fst (get_cache fresh_world (cache_key_of GuildConfig 5 ''prefix'')) = PNone"
    by (simp add: get_cache_def fresh_world_def)
  have h2: "kv_table fresh_world GuildConfig (5, ''prefix'') = None"
    by (simp add: fresh_world_def)
  from total_miss_returns_default [OF h1 h2] h1 h2 show ?thesis by blast
qed

section \<open>The relay: how many outbound calls an event makes\<close>

lemma kv_get_value: "fst (kv_get ns w gid key dflt) = Inr (lookup_value ns w gid key dflt)"
  by (cases "store_mode w"; cases "kv_table w ns (gid, key)")
     (simp_all add: kv_get_def lookup_value_def get_cache_def select_value_def record_call_def)

lemma kv_get_frame:
  "store_mode (snd (kv_get ns w gid key dflt)) = store_mode w"
  "cache_up (snd (kv_get ns w gid key dflt)) = cache_up w"
  "kv_table (snd (kv_get ns w gid key dflt)) = kv_table w"
  "log_event_toggles (snd (kv_get ns w gid key dflt)) = log_event_toggles w"
  "session_open (snd (kv_get ns w gid key dflt)) = session_open w"
  "from_url_ok (snd (kv_get ns w gid key dflt)) = from_url_ok w"
  "bot_name (snd (kv_get ns w gid key dflt)) = bot_name w"
  "outbound_calls (snd (kv_get ns w gid key dflt)) = outbound_calls w"
  by (cases "store_mode w"; cases "kv_table w ns (gid, key)";
      simp add: kv_get_def get_cache_def select_value_def set_cache_def record_call_def
        outbound_calls_def)+

lemma kv_get_again:
  "lookup_value ns (snd (kv_get ns w gid key dflt)) gid key dflt = lookup_value ns w gid key dflt"
  by (cases "store_mode w"; cases "kv_table w ns (gid, key)"; cases "cache_up w")
     (simp_all add: kv_get_def lookup_value_def get_cache_def select_value_def set_cache_def
        record_call_def)

lemma lookup_value_calls [simp]:
  "lookup_value ns (record_call c w) gid key dflt = lookup_value ns w gid key dflt"
  by (cases "store_mode w")
     (simp_all add: lookup_value_def get_cache_def select_value_def record_call_def)

lemma toggle_value:
  "get_log_event_enabled w gid key d =
     (Inr (case fst (select_enabled w gid key) of Inr (Some b) \<Rightarrow> b | _ \<Rightarrow> d),
      record_call (StoreQuery ''log_event_toggles'') w)"
  by (cases "store_mode w"; cases "log_event_toggles w (gid, key)")
     (simp_all add: get_log_event_enabled_def select_enabled_def)

lemma record_call_frame [simp]:
  "store_mode (record_call c w) = store_mode w"
  "session_open (record_call c w) = session_open w"
  "from_url_ok (record_call c w) = from_url_ok w"
  "log_event_toggles (record_call c w) = log_event_toggles w"
  "bot_name (record_call c w) = bot_name w"
  "outbound_calls (record_call c w) = outbound_calls w + (if is_webhook_send c then 1 else 0)"
  by (simp_all add: record_call_def outbound_calls_def)

lemma relay_calls:
  assumes t: "fst (get_logging_webhook w gid) = Inr target"
    and e: "fst (get_log_event_enabled w gid key True) = Inr enabled"
  shows "outbound_calls (snd (relay w gid key view)) =
           outbound_calls w +
           (if truthy target \<and> enabled \<and> session_open w
               \<and> webhook_from_url w target \<noteq> Inl ValueError
               \<and> webhook_from_url w target \<noteq> Inl TypeError
            then 1 else 0)"
proof -
  let ?w1 = "snd (get_logging_webhook w gid)"
  have v: "target = lookup_value GuildSetting w gid ''logging_webhook_url'' PNone"
    using t by (simp add: get_logging_webhook_def get_guild_setting_def kv_get_value)
  have f1: "store_mode ?w1 = store_mode w" "log_event_toggles ?w1 = log_event_toggles w"
    "session_open ?w1 = session_open w" "from_url_ok ?w1 = from_url_ok w"
    "outbound_calls ?w1 = outbound_calls w"
    by (simp_all add: get_logging_webhook_def get_guild_setting_def kv_get_frame)
  have e1: "fst (get_log_event_enabled ?w1 gid key True) = Inr enabled"
    using e f1 by (cases "store_mode w") (simp_all add: toggle_value select_enabled_def)
  let ?w2 = "record_call (StoreQuery ''log_event_toggles'') ?w1"
  have w2: "snd (get_log_event_enabled ?w1 gid key True) = ?w2"
    by (simp add: toggle_value)
  have t2: "fst (get_logging_webhook ?w2 gid) = Inr target"
    using v by (simp add: get_logging_webhook_def get_guild_setting_def kv_get_value kv_get_again)
  let ?w3 = "snd (get_logging_webhook ?w2 gid)"
  have f3: "from_url_ok ?w3 = from_url_ok w" "outbound_calls ?w3 = outbound_calls w"
    using f1 by (simp_all add: get_logging_webhook_def get_guild_setting_def kv_get_frame)
  have s2: "session_open ?w2 = session_open w" "outbound_calls ?w2 = outbound_calls w"
    using f1 by simp_all
  have u: "webhook_from_url ?w3 target = webhook_from_url w target"
    using f3 by (cases target) (simp_all add: webhook_from_url_def)
  show ?thesis
    using t e1 w2 t2 f1 f3 s2 u
    by (cases "webhook_from_url w target")
       (auto simp: relay_def check_log_enabled_def is_log_event_enabled_def send_log_embed_def
          case_prod_beta webhook_from_url_def split: pyval.splits if_splits)
qed

lemma handle_event_relay:
  assumes "event_guild ev = Some gid"
  shows "\<exists>view. handle_event w ev =
           (if loggable ev then relay w gid (event_key_of ev) view else (Inr (), w))"
  using assms
  by (cases ev)
     (auto simp: on_member_join_def on_member_remove_def on_member_ban_def on_member_unban_def
        on_message_delete_def on_message_edit_def)

text \<open>
  Claim C8, as stated, fails: with the delivery target configured and the event key
  enabled, an event can still produce no outbound call. Guild 5 has its target set and
  never toggled \<^verbatim>\<open>message_delete\<close>. A message-delete event whose author is a bot is
  dropped by the listener before any lookup; and the delete of an ordinary message
  reaches \<^verbatim>\<open>_send_log_embed\<close>, which returns at once while the HTTP session is closed.
\<close>

theorem enabled_event_without_call:
  "fst (get_logging_webhook configured_world 5) = Inr (PStr ''https://hook.example/abc'')
   \<and> fst (get_log_event_enabled configured_world 5 ''message_delete'' True) = Inr True
   \<and> outbound_calls (snd (handle_event configured_world (MessageDelete bot_message))) = 0
   \<and> fst (get_logging_webhook closed_session_world 5) = Inr (PStr ''https://hook.example/abc'')
   \<and> fst (get_log_event_enabled closed_session_world 5 ''message_delete'' True) = Inr True
   \<and> outbound_calls (snd (handle_event closed_session_world (MessageDelete example_message))) = 0"
proof -
  have a: "fst (get_logging_webhook configured_world 5) = Inr (PStr ''https://hook.example/abc'')"
    by code_simp
  have b: "fst (get_log_event_enabled configured_world 5 ''message_delete'' True) = Inr True"
    by code_simp
  have c: "outbound_calls (snd (handle_event configured_world (MessageDelete bot_message))) = 0"
    by code_simp
  have d: "fst (get_logging_webhook closed_session_world 5) = Inr (PStr ''https://hook.example/abc'')"
    by code_simp
  have e: "fst (get_log_event_enabled closed_session_world 5 ''message_delete'' True) = Inr True"
    by code_simp
  have f: "outbound_calls (snd (handle_event closed_session_world (MessageDelete example_message))) = 0"
    by code_simp
  from a b c d e f show ?thesis by simp
qed

text \<open>
  Claim C8, amended: for an event of tenant \<open>gid\<close>, let \<open>target\<close> be what the
  delivery-target lookup returns and \<open>enabled\<close> what the toggle read returns under the
  default \<^verbatim>\<open>True\<close> (a key never toggled reads as on). With no target (an absent or empty
  webhook URL) the listener makes no outbound call, and with the event key off it makes
  none. With a target and the key on it makes exactly one when the listener does not drop
  the event itself (a message event of a bot author, and an edit that leaves the text as
  it was, are dropped), the HTTP session is open and the target is accepted as a webhook
  URL; when the event is dropped, the session is closed or the target is refused, it makes
  none.
\<close>

theorem relay_outbound_calls:
  assumes "event_guild ev = Some gid"
    and "fst (get_logging_webhook w gid) = Inr target"
    and "fst (get_log_event_enabled w gid (event_key_of ev) True) = Inr enabled"
  shows "(\<not> truthy target \<longrightarrow> outbound_calls (snd (handle_event w ev)) = outbound_calls w)
   \<and> (\<not> enabled \<longrightarrow> outbound_calls (snd (handle_event w ev)) = outbound_calls w)
   \<and> (truthy target \<and> enabled \<and> loggable ev \<and> session_open w
        \<and> (\<exists>u. webhook_from_url w target = Inr u)
      \<longrightarrow> outbound_calls (snd (handle_event w ev)) = outbound_calls w + 1)
   \<and> (\<not> loggable ev \<longrightarrow> outbound_calls (snd (handle_event w ev)) = outbound_calls w)
   \<and> (\<not> session_open w \<longrightarrow> outbound_calls (snd (handle_event w ev)) = outbound_calls w)
   \<and> ((\<exists>e. webhook_from_url w target = Inl e)
      \<longrightarrow> outbound_calls (snd (handle_event w ev)) = outbound_calls w)"
proof -
  obtain view where h: "handle_event w ev =
      (if loggable ev then relay w gid (event_key_of ev) view else (Inr (), w))"
    using handle_event_relay [OF assms(1)] by blast
  have u: "(\<exists>e. webhook_from_url w target = Inl e) \<longleftrightarrow>
      (webhook_from_url w target = Inl ValueError \<or> webhook_from_url w target = Inl TypeError)"
    by (cases target) (auto simp: webhook_from_url_def)
  show ?thesis
    using relay_calls [OF assms(2) assms(3), of view] h u by auto
qed

theorem relay_outbound_calls_witness:
  "outbound_calls (snd (handle_event fresh_world (MessageDelete example_message))) = 0
   \<and> outbound_calls (snd (handle_event configured_off_world (MessageDelete example_message))) = 0
   \<and> outbound_calls (snd (handle_event configured_world (MessageDelete example_message))) = 1"
proof -
  have g: "event_guild (MessageDelete example_message) = Some 5"
    by (simp add: example_message_def)
  have l: "loggable (MessageDelete example_message)"
    by (simp add: example_message_def example_user_def)
  have k: "event_key_of (MessageDelete example_message) = ''message_delete''"
    by simp
  have t0: "fst (get_logging_webhook fresh_world 5) = Inr PNone"
    by code_simp
  have e0: "fst (get_log_event_enabled fresh_world 5 ''message_delete'' True) = Inr True"
    by code_simp
  have t1: "fst (get_logging_webhook configured_off_world 5) = Inr (PStr ''https://hook.example/abc'')"
    by code_simp
  have e1: "fst (get_log_event_enabled configured_off_world 5 ''message_delete'' True) = Inr False"
    by code_simp
  have t2: "fst (get_logging_webhook configured_world 5) = Inr (PStr ''https://hook.example/abc'')"
    by code_simp
  have e2: "fst (get_log_event_enabled configured_world 5 ''message_delete'' True) = Inr True"
    by code_simp
  have s: "session_open configured_world" "outbound_calls configured_world = 0"
    "outbound_calls configured_off_world = 0" "outbound_calls fresh_world = 0"
    "webhook_from_url configured_world (PStr ''https://hook.example/abc'')
       = Inr ''https://hook.example/abc''"
    by (simp_all add: configured_world_def configured_off_world_def fresh_world_def
        outbound_calls_def webhook_from_url_def)
  have a: "outbound_calls (snd (handle_event fresh_world (MessageDelete example_message))) = 0"
    using relay_outbound_calls [OF g t0, of True] e0 s k by simp
  have b: "outbound_calls (snd (handle_event configured_off_world (MessageDelete example_message))) = 0"
    using relay_outbound_calls [OF g t1, of False] e1 s k by simp
  have c: "outbound_calls (snd (handle_event configured_world (MessageDelete example_message))) = 1"
    using relay_outbound_calls [OF g t2, of True] e2 s k l by simp
  from a b c show ?thesis by simp
qed

section \<open>Truncation of long fields\<close>

lemma kv_get_views: "delivered_views (snd (kv_get ns w gid key dflt)) = delivered_views w"
  by (cases "store_mode w"; cases "kv_table w ns (gid, key)";
      simp add: kv_get_def get_cache_def select_value_def set_cache_def record_call_def
        delivered_views_def)

lemma record_call_views [simp]:
  "delivered_views (record_call c w) = delivered_views w @ sent_view c"
  by (simp add: record_call_def delivered_views_def)

lemma relay_views:
  assumes t: "fst (get_logging_webhook w gid) = Inr target"
    and e: "fst (get_log_event_enabled w gid key True) = Inr enabled"
  shows "delivered_views (snd (relay w gid key view)) =
           delivered_views w @
           (if truthy target \<and> enabled \<and> session_open w
               \<and> webhook_from_url w target \<noteq> Inl ValueError
               \<and> webhook_from_url w target \<noteq> Inl TypeError
            then [view] else [])"
proof -
  let ?w1 = "snd (get_logging_webhook w gid)"
  have v: "target = lookup_value GuildSetting w gid ''logging_webhook_url'' PNone"
    using t by (simp add: get_logging_webhook_def get_guild_setting_def kv_get_value)
  have f1: "store_mode ?w1 = store_mode w" "log_event_toggles ?w1 = log_event_toggles w"
    "session_open ?w1 = session_open w" "from_url_ok ?w1 = from_url_ok w"
    "delivered_views ?w1 = delivered_views w"
    by (simp_all add: get_logging_webhook_def get_guild_setting_def kv_get_frame kv_get_views)
  have e1: "fst (get_log_event_enabled ?w1 gid key True) = Inr enabled"
    using e f1 by (cases "store_mode w") (simp_all add: toggle_value select_enabled_def)
  let ?w2 = "record_call (StoreQuery ''log_event_toggles'') ?w1"
  have w2: "snd (get_log_event_enabled ?w1 gid key True) = ?w2"
    by (simp add: toggle_value)
  have t2: "fst (get_logging_webhook ?w2 gid) = Inr target"
    using v by (simp add: get_logging_webhook_def get_guild_setting_def kv_get_value kv_get_again)
  let ?w3 = "snd (get_logging_webhook ?w2 gid)"
  have f3: "from_url_ok ?w3 = from_url_ok w" "delivered_views ?w3 = delivered_views w"
    using f1 by (simp_all add: get_logging_webhook_def get_guild_setting_def kv_get_frame
        kv_get_views)
  have s2: "session_open ?w2 = session_open w" "delivered_views ?w2 = delivered_views w"
    using f1 by simp_all
  have u: "webhook_from_url ?w3 target = webhook_from_url w target"
    using f3 by (cases target) (simp_all add: webhook_from_url_def)
  show ?thesis
    using t e1 w2 t2 f1 f3 s2 u
    by (cases "webhook_from_url w target")
       (auto simp: relay_def check_log_enabled_def is_log_event_enabled_def send_log_embed_def
          case_prod_beta webhook_from_url_def split: pyval.splits if_splits)
qed

lemma relay_new_views:
  assumes "fst (get_logging_webhook w gid) = Inr target"
    and "fst (get_log_event_enabled w gid key True) = Inr enabled"
  shows "new_views w (snd (relay w gid key view)) =
           (if truthy target \<and> enabled \<and> session_open w
               \<and> (\<exists>u. webhook_from_url w target = Inr u)
            then [view] else [])"
proof -
  have u: "(\<exists>u. webhook_from_url w target = Inr u) \<longleftrightarrow>
      (webhook_from_url w target \<noteq> Inl ValueError \<and> webhook_from_url w target \<noteq> Inl TypeError)"
    by (cases target) (auto simp: webhook_from_url_def)
  show ?thesis
    unfolding new_views_def relay_views [OF assms] u by simp
qed

lemma new_views_same: "new_views w w = []"
  by (simp add: new_views_def)

lemma delete_view_fields:
  "view_fields (message_delete_view w m) =
     (if content m = [] then [] else [''**Content:** '' @ deleted_content (content m)])"
  by (simp add: message_delete_view_def add_id_footer_def add_field_def create_log_embed_def)

lemma edit_view_fields:
  "view_fields (message_edit_view w before after) =
     (if content before = [] then [] else [''**Before:** '' @ edited_content (content before)]) @
     (if content after = [] then [] else [''**After:** '' @ edited_content (content after)])"
  by (simp add: message_edit_view_def add_id_footer_def add_field_def create_log_embed_def)

text \<open>
  Claim C9: let \<open>target\<close> be the delivery target of the tenant and \<open>del_on\<close>, \<open>edit_on\<close> what
  the toggle reads return. \<^verbatim>\<open>on_message_delete\<close> delivers one notification when the target
  is set, the key is on, the author is no bot, the session is open and the target is a
  webhook URL, and none otherwise. The fields of the delivered view are the content field
  alone (no field for an empty text), whose text \<open>x\<close> has at most 1000 characters: the
  first 997 characters of the deleted text followed by \<^verbatim>\<open>...\<close> when that text is longer
  than 1000, the deleted text itself otherwise. \<^verbatim>\<open>on_message_edit\<close> likewise delivers one
  view with the before and after fields, each of at most 500 characters: the first 497 and
  \<^verbatim>\<open>...\<close> above 500, the text itself otherwise.
\<close>

theorem long_fields_truncated:
  assumes "message_guild m = Some gid"
    and "message_guild after = Some gid"
    and "fst (get_logging_webhook w gid) = Inr target"
    and "fst (get_log_event_enabled w gid ''message_delete'' True) = Inr del_on"
    and "fst (get_log_event_enabled w gid ''message_edit'' True) = Inr edit_on"
  shows "(\<exists>v x. new_views w (snd (on_message_delete w m)) =
              (if truthy target \<and> del_on \<and> \<not> user_bot (message_author m) \<and> session_open w
                  \<and> (\<exists>u. webhook_from_url w target = Inr u)
               then [v] else [])
            \<and> view_fields v = (if content m = [] then [] else [''**Content:** '' @ x])
            \<and> length x \<le> 1000
            \<and> (1000 < length (content m) \<longrightarrow> x = take 997 (content m) @ ''...'')
            \<and> (length (content m) \<le> 1000 \<longrightarrow> x = content m))
   \<and> (\<exists>v x y. new_views w (snd (on_message_edit w before after)) =
              (if truthy target \<and> edit_on \<and> \<not> user_bot (message_author after)
                  \<and> content before \<noteq> content after \<and> session_open w
                  \<and> (\<exists>u. webhook_from_url w target = Inr u)
               then [v] else [])
            \<and> view_fields v =
                (if content before = [] then [] else [''**Before:** '' @ x]) @
                (if content after = [] then [] else [''**After:** '' @ y])
            \<and> length x \<le> 500
            \<and> (500 < length (content before) \<longrightarrow> x = take 497 (content before) @ ''...'')
            \<and> (length (content before) \<le> 500 \<longrightarrow> x = content before)
            \<and> length y \<le> 500
            \<and> (500 < length (content after) \<longrightarrow> y = take 497 (content after) @ ''...'')
            \<and> (length (content after) \<le> 500 \<longrightarrow> y = content after))"
proof (intro conjI)
  let ?v = "message_delete_view w m"
  let ?x = "deleted_content (content m)"
  have n: "new_views w (snd (on_message_delete w m)) =
      (if truthy target \<and> del_on \<and> \<not> user_bot (message_author m) \<and> session_open w
          \<and> (\<exists>u. webhook_from_url w target = Inr u)
       then [?v] else [])"
    using assms(1) relay_new_views [OF assms(3) assms(4), of ?v] new_views_same [of w]
    by (simp add: on_message_delete_def)
  have p: "length ?x \<le> 1000"
    "1000 < length (content m) \<longrightarrow> ?x = take 997 (content m) @ ''...''"
    "length (content m) \<le> 1000 \<longrightarrow> ?x = content m"
    by (simp_all add: deleted_content_def)
  show "\<exists>v x. new_views w (snd (on_message_delete w m)) =
              (if truthy target \<and> del_on \<and> \<not> user_bot (message_author m) \<and> session_open w
                  \<and> (\<exists>u. webhook_from_url w target = Inr u)
               then [v] else [])
            \<and> view_fields v = (if content m = [] then [] else [''**Content:** '' @ x])
            \<and> length x \<le> 1000
            \<and> (1000 < length (content m) \<longrightarrow> x = take 997 (content m) @ ''...'')
            \<and> (length (content m) \<le> 1000 \<longrightarrow> x = content m)"
    using n p delete_view_fields [of w m] by blast
next
  let ?v = "message_edit_view w before after"
  let ?x = "edited_content (content before)"
  let ?y = "edited_content (content after)"
  have n: "new_views w (snd (on_message_edit w before after)) =
      (if truthy target \<and> edit_on \<and> \<not> user_bot (message_author after)
          \<and> content before \<noteq> content after \<and> session_open w
          \<and> (\<exists>u. webhook_from_url w target = Inr u)
       then [?v] else [])"
    using assms(2) relay_new_views [OF assms(3) assms(5), of ?v] new_views_same [of w]
    by (simp add: on_message_edit_def)
  have p: "length ?x \<le> 500"
    "500 < length (content before) \<longrightarrow> ?x = take 497 (content before) @ ''...''"
    "length (content before) \<le> 500 \<longrightarrow> ?x = content before"
    "length ?y \<le> 500"
    "500 < length (content after) \<longrightarrow> ?y = take 497 (content after) @ ''...''"
    "length (content after) \<le> 500 \<longrightarrow> ?y = content after"
    by (simp_all add: edited_content_def)
  show "\<exists>v x y. new_views w (snd (on_message_edit w before after)) =
              (if truthy target \<and> edit_on \<and> \<not> user_bot (message_author after)
                  \<and> content before \<noteq> content after \<and> session_open w
                  \<and> (\<exists>u. webhook_from_url w target = Inr u)
               then [v] else [])
            \<and> view_fields v =
                (if content before = [] then [] else [''**Before:** '' @ x]) @
                (if content after = [] then [] else [''**After:** '' @ y])
            \<and> length x \<le> 500
            \<and> (500 < length (content before) \<longrightarrow> x = take 497 (content before) @ ''...'')
            \<and> (length (content before) \<le> 500 \<longrightarrow> x = content before)
            \<and> length y \<le> 500
            \<and> (500 < length (content after) \<longrightarrow> y = take 497 (content after) @ ''...'')
            \<and> (length (content after) \<le> 500 \<longrightarrow> y = content after)"
    using n p edit_view_fields [of w before after] by blast
qed

theorem long_fields_truncated_witness:
  "\<exists>v. new_views configured_world (snd (on_message_delete configured_world long_message)) = [v]
      \<and> view_fields v = [''**Content:** '' @ replicate 997 (CHR ''a'') @ ''...'']"
proof -
  have g: "message_guild long_message = Some 5" "message_guild example_message = Some 5"
    by (simp_all add: long_message_def example_message_def)
  have t: "fst (get_logging_webhook configured_world 5) = Inr (PStr ''https://hook.example/abc'')"
    by code_simp
  have d: "fst (get_log_event_enabled configured_world 5 ''message_delete'' True) = Inr True"
    by code_simp
  have e: "fst (get_log_event_enabled configured_world 5 ''message_edit'' True) = Inr True"
    by code_simp
  have s: "session_open configured_world"
    "webhook_from_url configured_world (PStr ''https://hook.example/abc'')
       = Inr ''https://hook.example/abc''"
    "\<not> user_bot (message_author long_message)"
    "content long_message = replicate 1500 (CHR ''a'')"
    by (simp_all add: configured_world_def fresh_world_def webhook_from_url_def
        long_message_def example_message_def example_user_def)
  from long_fields_truncated [OF g t d e, of example_message] s
  obtain v x where
    "new_views configured_world (snd (on_message_delete configured_world long_message)) = [v]"
    "view_fields v = [''**Content:** '' @ x]"
    "x = take 997 (replicate 1500 (CHR ''a'')) @ ''...''"
    by auto
  then show ?thesis by auto
qed

section \<open>A credential of the wrong shape is refused\<close>

text \<open>
  Claim C10: when the payload is a dictionary and the provider is not
  \<^verbatim>\<open>github_copilot\<close>, or the payload is neither a string nor a dictionary,
  \<^verbatim>\<open>set_guild_api_key\<close> returns \<^verbatim>\<open>False\<close> and the state is what it was: no row is written,
  no cache entry is removed, and no call reaches the store or the cache.
\<close>

theorem wrong_shape_refused:
  assumes "(is_dict key_data \<and> provider \<noteq> ''github_copilot'')
           \<or> (\<not> is_str key_data \<and> \<not> is_dict key_data)"
  shows "set_guild_api_key f w gid provider key_data = (Inr False, w)"
  using assms
  by (cases key_data) (auto simp: set_guild_api_key_def encrypt_key_data_def)

theorem wrong_shape_refused_witness:
  "set_guild_api_key example_fernet fresh_world 5 ''openai'' (PDict [(''token'', PStr ''x'')])
     = (Inr False, fresh_world)
   \<and> set_guild_api_key example_fernet fresh_world 5 ''github_copilot'' (PInt 7)
     = (Inr False, fresh_world)"
  using wrong_shape_refused [of "PDict [(''token'', PStr ''x'')]" "''openai''" example_fernet
      fresh_world 5]
    wrong_shape_refused [of "PInt 7" "''github_copilot''" example_fernet fresh_world 5]
  by simp

section \<open>No exception leaves the store\<close>

lemma kwargs_dict: "GuildAPIKey_kwargs (GuildAPIKey_dict k) = Inr k"
  by (simp add: GuildAPIKey_kwargs_def GuildAPIKey_dict_def GuildAPIKey_fields_def)

lemma kv_get_returns: "\<exists>r. fst (kv_get ns w gid key dflt) = Inr r"
  by (simp add: kv_get_value)

lemma kv_set_returns: "\<exists>r. fst (kv_set ns w gid key v) = Inr r"
  by (cases "store_mode w"; cases "serializable v")
     (auto simp: kv_set_def json_dumps_def upsert_value_def)

lemma kv_get_all_returns: "\<exists>r. fst (kv_get_all ns w gid) = Inr r"
  by (cases "store_mode w") (auto simp: kv_get_all_def select_all_values_def)

lemma toggle_returns:
  "\<exists>r. fst (get_log_event_enabled w gid key b) = Inr r"
  "\<exists>r. fst (set_log_event_enabled w gid key b) = Inr r"
  by (cases "store_mode w"; auto simp: toggle_value set_log_event_enabled_def upsert_enabled_def)+

lemma toggles_all_returns: "\<exists>r. fst (get_all_log_event_toggles w gid) = Inr r"
  by (cases "store_mode w") (auto simp: get_all_log_event_toggles_def select_all_enabled_def)

lemma set_api_key_returns: "\<exists>r. fst (set_guild_api_key f w gid provider key_data) = Inr r"
  by (cases "store_mode w"; cases "encrypt_key_data f provider key_data")
     (auto simp: set_guild_api_key_def upsert_api_key_def split: option.splits prod.splits)

lemma remove_api_key_returns: "\<exists>r. fst (remove_guild_api_key w gid) = Inr r"
  by (cases "store_mode w") (auto simp: remove_guild_api_key_def delete_api_key_def)

lemma get_api_key_miss:
  assumes "\<not> truthy (fst (get_cache w (api_key_cache_key gid)))"
  shows "fst (get_guild_api_key f w gid) =
           Inr (case fst (select_api_key w gid) of
                  Inr (Some row) \<Rightarrow> (case decode_row f row of Inl e \<Rightarrow> None | Inr k \<Rightarrow> Some k)
                | _ \<Rightarrow> None)"
  using assms
  by (cases "store_mode w"; cases "guild_api_keys w gid")
     (auto simp: get_guild_api_key_def get_cache_def select_api_key_def record_call_def
        split: sum.splits)

lemma get_api_key_returns:
  assumes "api_key_cache_ok w gid"
  shows "\<exists>r. fst (get_guild_api_key f w gid) = Inr r"
proof (cases "truthy (fst (get_cache w (api_key_cache_key gid)))")
  case False
  then show ?thesis by (simp add: get_api_key_miss)
next
  case True
  then obtain k where "GuildAPIKey_kwargs (fst (get_cache w (api_key_cache_key gid))) = Inr k"
    using assms by (auto simp: api_key_cache_ok_def split: sum.splits)
  then show ?thesis
    using True by (simp add: get_guild_api_key_def case_prod_beta)
qed

text \<open>The read raises exactly when the condition on the cache entry fails.\<close>

lemma kwargs_error: "GuildAPIKey_kwargs cached = Inl e \<Longrightarrow> e = TypeError"
  by (cases cached) (simp_all add: GuildAPIKey_kwargs_def split: if_splits)

lemma get_api_key_raises:
  assumes "\<not> api_key_cache_ok w gid"
  shows "fst (get_guild_api_key f w gid) = Inl TypeError"
proof -
  let ?c = "fst (get_cache w (api_key_cache_key gid))"
  have t: "truthy ?c"
    using assms by (simp add: api_key_cache_ok_def split: if_splits)
  obtain e where e: "GuildAPIKey_kwargs ?c = Inl e"
    using assms t by (cases "GuildAPIKey_kwargs ?c") (simp_all add: api_key_cache_ok_def)
  then have "e = TypeError" by (rule kwargs_error)
  with t e show ?thesis
    by (simp add: get_guild_api_key_def case_prod_beta)
qed

lemma decrypt_failure_key:
  assumes "encrypted_api_key row = Some enc" "enc \<noteq> []" "decrypt_data f enc = Inl e"
  shows "decode_row f row = Inl e"
  using assms by (simp add: decode_row_def)

lemma decrypt_failure_auth:
  assumes "encrypted_github_auth_info row = Some column" "column \<noteq> []"
    "json_loads column = Inr (PDict kvs)" "map_of kvs ''data'' = Some (PStr token)"
    "decrypt_data f token = Inl e"
  shows "\<exists>e'. decode_row f row = Inl e'"
  using assms by (auto simp: decode_row_def decode_github_auth_def split: option.splits sum.splits)

text \<open>
  The condition on the cache in the amended claim holds in the initial state and is kept
  by every operation of the store, whichever tenant it is called for: the keys of the
  three configuration namespaces differ from the credential keys, and a credential key is
  only ever given the \<^verbatim>\<open>__dict__\<close> of a \<^verbatim>\<open>GuildAPIKey\<close> or removed.
\<close>

lemma cache_key_disjoint: "cache_key_of ns g k \<noteq> api_key_cache_key g'"
  by (cases ns) (simp_all add: cache_key_of_def api_key_cache_key_def)

lemma cache_ok_same:
  assumes "cache_up w' = cache_up w"
    and "cache w' (api_key_cache_key g) = cache w (api_key_cache_key g)"
  shows "api_key_cache_ok w' g = api_key_cache_ok w g"
  using assms by (simp add: api_key_cache_ok_def get_cache_def)

lemma cache_ok_absent: "cache w (api_key_cache_key g) = None \<Longrightarrow> api_key_cache_ok w g"
  by (simp add: api_key_cache_ok_def get_cache_def)

lemma cache_ok_dict:
  "cache w (api_key_cache_key g) = Some (GuildAPIKey_dict k) \<Longrightarrow> api_key_cache_ok w g"
  by (simp add: api_key_cache_ok_def get_cache_def kwargs_dict)

lemma cache_ok_down: "\<not> cache_up w \<Longrightarrow> api_key_cache_ok w g"
  by (simp add: api_key_cache_ok_def get_cache_def)

lemma api_key_cache_ok_fresh: "api_key_cache_ok fresh_world g"
  by (simp add: cache_ok_absent fresh_world_def)

lemma kv_get_cache:
  "cache_up (snd (kv_get ns w g' k d)) = cache_up w"
  "cache (snd (kv_get ns w g' k d)) (api_key_cache_key g) = cache w (api_key_cache_key g)"
  using cache_key_disjoint [of ns g' k g]
  by (cases "store_mode w"; cases "kv_table w ns (g', k)";
      simp add: kv_get_def get_cache_def select_value_def set_cache_def record_call_def)+

lemma api_key_cache_ok_kv_get:
  "api_key_cache_ok w g \<Longrightarrow> api_key_cache_ok (snd (kv_get ns w g' k d)) g"
  by (simp add: cache_ok_same [OF kv_get_cache])

lemma kv_set_cache:
  "cache_up (snd (kv_set ns w g' k v)) = cache_up w"
  "cache (snd (kv_set ns w g' k v)) (api_key_cache_key g) = cache w (api_key_cache_key g)"
  using cache_key_disjoint [of ns g' k g]
  by (cases "store_mode w"; cases "serializable v";
      simp add: kv_set_def json_dumps_def upsert_value_def set_cache_def record_call_def)+

lemma api_key_cache_ok_kv_set:
  "api_key_cache_ok w g \<Longrightarrow> api_key_cache_ok (snd (kv_set ns w g' k v)) g"
  by (simp add: cache_ok_same [OF kv_set_cache])

lemma kv_get_all_cache:
  "cache_up (snd (kv_get_all ns w g')) = cache_up w"
  "cache (snd (kv_get_all ns w g')) = cache w"
  by (cases "store_mode w";
      simp add: kv_get_all_def select_all_values_def record_call_def)+

lemma api_key_cache_ok_kv_get_all:
  "api_key_cache_ok w g \<Longrightarrow> api_key_cache_ok (snd (kv_get_all ns w g')) g"
  using cache_ok_same [of "snd (kv_get_all ns w g')" w g] by (simp add: kv_get_all_cache)

lemma toggles_cache:
  "cache_up (snd (get_log_event_enabled w g' k b)) = cache_up w"
  "cache (snd (get_log_event_enabled w g' k b)) = cache w"
  "cache_up (snd (set_log_event_enabled w g' k b)) = cache_up w"
  "cache (snd (set_log_event_enabled w g' k b)) = cache w"
  "cache_up (snd (get_all_log_event_toggles w g')) = cache_up w"
  "cache (snd (get_all_log_event_toggles w g')) = cache w"
  by (cases "store_mode w";
      simp add: toggle_value set_log_event_enabled_def upsert_enabled_def
        get_all_log_event_toggles_def select_all_enabled_def record_call_def)+

lemma api_key_cache_ok_toggles:
  "api_key_cache_ok w g \<Longrightarrow> api_key_cache_ok (snd (get_log_event_enabled w g' k b)) g"
  "api_key_cache_ok w g \<Longrightarrow> api_key_cache_ok (snd (set_log_event_enabled w g' k b)) g"
  "api_key_cache_ok w g \<Longrightarrow> api_key_cache_ok (snd (get_all_log_event_toggles w g')) g"
  using cache_ok_same [of "snd (get_log_event_enabled w g' k b)" w g]
    cache_ok_same [of "snd (set_log_event_enabled w g' k b)" w g]
    cache_ok_same [of "snd (get_all_log_event_toggles w g')" w g]
  by (simp_all add: toggles_cache)

lemma set_api_key_cache:
  "cache_up (snd (set_guild_api_key f w g' p kd)) = cache_up w"
  "cache (snd (set_guild_api_key f w g' p kd)) (api_key_cache_key g) = None
   \<or> cache (snd (set_guild_api_key f w g' p kd)) (api_key_cache_key g)
       = cache w (api_key_cache_key g)"
  by (cases "store_mode w"; cases "encrypt_key_data f p kd";
      auto simp: set_guild_api_key_def upsert_api_key_def delete_cache_def record_call_def
        split: option.splits prod.splits)+

lemma api_key_cache_ok_set_api_key:
  "api_key_cache_ok w g \<Longrightarrow> api_key_cache_ok (snd (set_guild_api_key f w g' p kd)) g"
  using set_api_key_cache cache_ok_absent cache_ok_same by metis

lemma remove_api_key_cache:
  "cache_up (snd (remove_guild_api_key w g')) = cache_up w"
  "cache (snd (remove_guild_api_key w g')) (api_key_cache_key g) = None
   \<or> cache (snd (remove_guild_api_key w g')) (api_key_cache_key g)
       = cache w (api_key_cache_key g)"
  by (cases "store_mode w";
      auto simp: remove_guild_api_key_def delete_api_key_def delete_cache_def record_call_def)+

lemma api_key_cache_ok_remove_api_key:
  "api_key_cache_ok w g \<Longrightarrow> api_key_cache_ok (snd (remove_guild_api_key w g')) g"
  using remove_api_key_cache cache_ok_absent cache_ok_same by metis

lemma get_api_key_cache:
  "cache_up (snd (get_guild_api_key f w g')) = cache_up w"
  "(\<exists>k. cache (snd (get_guild_api_key f w g')) (api_key_cache_key g)
          = Some (GuildAPIKey_dict k))
   \<or> cache (snd (get_guild_api_key f w g')) (api_key_cache_key g)
       = cache w (api_key_cache_key g)"
proof -
  obtain cached w1 where c: "get_cache w (api_key_cache_key g') = (cached, w1)"
    by (cases "get_cache w (api_key_cache_key g')")
  then have w1: "cache w1 = cache w" "cache_up w1 = cache_up w" "store_mode w1 = store_mode w"
    "guild_api_keys w1 = guild_api_keys w"
    by (auto simp: get_cache_def record_call_def)
  obtain res w2 where s: "select_api_key w1 g' = (res, w2)"
    by (cases "select_api_key w1 g'")
  then have w2: "cache w2 = cache w" "cache_up w2 = cache_up w"
    using w1 by (auto simp: select_api_key_def record_call_def)
  show "cache_up (snd (get_guild_api_key f w g')) = cache_up w"
    using c s w1 w2
    by (simp add: get_guild_api_key_def set_cache_def record_call_def
        split: sum.splits option.splits)
  show "(\<exists>k. cache (snd (get_guild_api_key f w g')) (api_key_cache_key g)
          = Some (GuildAPIKey_dict k))
   \<or> cache (snd (get_guild_api_key f w g')) (api_key_cache_key g)
       = cache w (api_key_cache_key g)"
    using c s w1 w2
    by (auto simp: get_guild_api_key_def set_cache_def record_call_def
        split: sum.splits option.splits)
qed

lemma api_key_cache_ok_get_api_key:
  "api_key_cache_ok w g \<Longrightarrow> api_key_cache_ok (snd (get_guild_api_key f w g')) g"
  using get_api_key_cache cache_ok_dict cache_ok_same by metis

text \<open>
  Claim C2, as stated, fails for one behaviour of the cache: \<^verbatim>\<open>get_guild_api_key\<close> passes
  a truthy cache answer to \<^verbatim>\<open>GuildAPIKey(**cached)\<close> before its \<^verbatim>\<open>try\<close>. When the cache
  answers the credential key of guild 5 with the number 1, the \<^verbatim>\<open>TypeError\<close> of that call
  reaches the caller.
\<close>

theorem cached_junk_raises:
  "fst (get_guild_api_key example_fernet bad_cache_world 5) = Inl TypeError"
  by code_simp

text \<open>
  Claim C2, amended: whatever the store does (answers, reports failure, raises), whatever
  rows there are and whatever the Fernet object does, each of the fourteen operations of
  the store returns a value and raises nothing, in every state where the cache answers
  the credential key of the tenant with nothing, a falsy value or a dictionary of the
  attributes of a \<^verbatim>\<open>GuildAPIKey\<close>; each operation leaves the cache in such a state. When the
  credential read reaches the row and the ciphertext of the key, or the one inside the
  \<^verbatim>\<open>encrypted_github_auth_info\<close> document, does not decrypt, the result is \<^verbatim>\<open>None\<close>.
\<close>

theorem no_exception_escapes:
  assumes "api_key_cache_ok w gid"
  shows "(\<exists>r. fst (get_guild_config w gid key dflt) = Inr r)
   \<and> (\<exists>r. fst (set_guild_config w gid key v) = Inr r)
   \<and> (\<exists>r. fst (get_all_guild_config w gid) = Inr r)
   \<and> (\<exists>r. fst (get_guild_setting w gid key dflt) = Inr r)
   \<and> (\<exists>r. fst (set_guild_setting w gid key v) = Inr r)
   \<and> (\<exists>r. fst (get_botdetect_config w gid key dflt) = Inr r)
   \<and> (\<exists>r. fst (set_botdetect_config w gid key v) = Inr r)
   \<and> (\<exists>r. fst (get_all_botdetect_config w gid) = Inr r)
   \<and> (\<exists>r. fst (get_log_event_enabled w gid key b) = Inr r)
   \<and> (\<exists>r. fst (set_log_event_enabled w gid key b) = Inr r)
   \<and> (\<exists>r. fst (get_all_log_event_toggles w gid) = Inr r)
   \<and> (\<exists>r. fst (set_guild_api_key f w gid provider key_data) = Inr r)
   \<and> (\<exists>r. fst (get_guild_api_key f w gid) = Inr r)
   \<and> (\<exists>r. fst (remove_guild_api_key w gid) = Inr r)
   \<and> api_key_cache_ok (snd (get_guild_config w gid key dflt)) gid
   \<and> api_key_cache_ok (snd (set_guild_config w gid key v)) gid
   \<and> api_key_cache_ok (snd (get_all_guild_config w gid)) gid
   \<and> api_key_cache_ok (snd (get_guild_setting w gid key dflt)) gid
   \<and> api_key_cache_ok (snd (set_guild_setting w gid key v)) gid
   \<and> api_key_cache_ok (snd (get_botdetect_config w gid key dflt)) gid
   \<and> api_key_cache_ok (snd (set_botdetect_config w gid key v)) gid
   \<and> api_key_cache_ok (snd (get_all_botdetect_config w gid)) gid
   \<and> api_key_cache_ok (snd (get_log_event_enabled w gid key b)) gid
   \<and> api_key_cache_ok (snd (set_log_event_enabled w gid key b)) gid
   \<and> api_key_cache_ok (snd (get_all_log_event_toggles w gid)) gid
   \<and> api_key_cache_ok (snd (set_guild_api_key f w gid provider key_data)) gid
   \<and> api_key_cache_ok (snd (get_guild_api_key f w gid)) gid
   \<and> api_key_cache_ok (snd (remove_guild_api_key w gid)) gid
   \<and> (\<not> truthy (fst (get_cache w (api_key_cache_key gid)))
        \<and> fst (select_api_key w gid) = Inr (Some row)
        \<and> encrypted_api_key row = Some enc \<and> enc \<noteq> [] \<and> decrypt_data f enc = Inl e
      \<longrightarrow> fst (get_guild_api_key f w gid) = Inr None)
   \<and> (\<not> truthy (fst (get_cache w (api_key_cache_key gid)))
        \<and> fst (select_api_key w gid) = Inr (Some row)
        \<and> encrypted_github_auth_info row = Some column \<and> column \<noteq> []
        \<and> json_loads column = Inr (PDict kvs) \<and> map_of kvs ''data'' = Some (PStr token)
        \<and> decrypt_data f token = Inl e
      \<longrightarrow> fst (get_guild_api_key f w gid) = Inr None)"
proof -
  have a: "\<not> truthy (fst (get_cache w (api_key_cache_key gid)))
        \<and> fst (select_api_key w gid) = Inr (Some row)
        \<and> encrypted_api_key row = Some enc \<and> enc \<noteq> [] \<and> decrypt_data f enc = Inl e
      \<longrightarrow> fst (get_guild_api_key f w gid) = Inr None"
    by (auto simp: get_api_key_miss decrypt_failure_key)
  have b: "\<not> truthy (fst (get_cache w (api_key_cache_key gid)))
        \<and> fst (select_api_key w gid) = Inr (Some row)
        \<and> encrypted_github_auth_info row = Some column \<and> column \<noteq> []
        \<and> json_loads column = Inr (PDict kvs) \<and> map_of kvs ''data'' = Some (PStr token)
        \<and> decrypt_data f token = Inl e
      \<longrightarrow> fst (get_guild_api_key f w gid) = Inr None"
  proof (intro impI, elim conjE)
    assume h: "\<not> truthy (fst (get_cache w (api_key_cache_key gid)))"
      "fst (select_api_key w gid) = Inr (Some row)"
      "encrypted_github_auth_info row = Some column" "column \<noteq> []"
      "json_loads column = Inr (PDict kvs)" "map_of kvs ''data'' = Some (PStr token)"
      "decrypt_data f token = Inl e"
    obtain e' where "decode_row f row = Inl e'"
      using decrypt_failure_auth [OF h(3-7)] by blast
    then show "fst (get_guild_api_key f w gid) = Inr None"
      using h(1,2) by (simp add: get_api_key_miss)
  qed
  show ?thesis
    unfolding get_guild_config_def set_guild_config_def get_guild_setting_def
      set_guild_setting_def get_botdetect_config_def set_botdetect_config_def
      get_all_guild_config_def get_all_botdetect_config_def
    by (intro conjI kv_get_returns kv_set_returns kv_get_all_returns toggle_returns
        toggles_all_returns set_api_key_returns remove_api_key_returns
        get_api_key_returns [OF assms]
        api_key_cache_ok_kv_get [OF assms] api_key_cache_ok_kv_set [OF assms]
        api_key_cache_ok_kv_get_all [OF assms] api_key_cache_ok_toggles [OF assms]
        api_key_cache_ok_set_api_key [OF assms] api_key_cache_ok_get_api_key [OF assms]
        api_key_cache_ok_remove_api_key [OF assms] a b)
qed

theorem no_exception_escapes_witness:
  "api_key_cache_ok corrupt_key_world 5
   \<and> decrypt_data example_fernet ''not-a-token'' = Inl InvalidToken
   \<and> fst (get_guild_api_key example_fernet corrupt_key_world 5) = Inr None"
proof -
  have h: "api_key_cache_ok corrupt_key_world 5"
    by (simp add: api_key_cache_ok_def get_cache_def corrupt_key_world_def fresh_world_def)
  have c: "\<not> truthy (fst (get_cache corrupt_key_world (api_key_cache_key 5)))"
    by (simp add: get_cache_def corrupt_key_world_def fresh_world_def)
  have r: "fst (select_api_key corrupt_key_world 5) =
      Inr (Some \<lparr>row_guild_id = 5, row_api_provider = ''openai'',
        encrypted_api_key = Some ''not-a-token'', encrypted_github_auth_info = None,
        row_created_at = example_time, row_updated_at = example_time\<rparr>)"
    by (simp add: select_api_key_def corrupt_key_world_def fresh_world_def)
  have d: "decrypt_data example_fernet ''not-a-token'' = Inl InvalidToken"
    by (simp add: decrypt_data_def example_fernet_def)
  from no_exception_escapes [OF h, where f = example_fernet and enc = "''not-a-token''"
      and e = InvalidToken
      and row = "\<lparr>row_guild_id = 5, row_api_provider = ''openai'',
        encrypted_api_key = Some ''not-a-token'', encrypted_github_auth_info = None,
        row_created_at = example_time, row_updated_at = example_time\<rparr>"]
    c r d
  have "fst (get_guild_api_key example_fernet corrupt_key_world 5) = Inr None"
    by simp
  with h d show ?thesis by simp
qed

section \<open>Reading back the text that the encoder writes\<close>


lemma digit_val_char [simp]: "digit_val (digit_char n) = Some (n mod 10)"
  by (simp add: digit_val_def digit_char_def)

lemma is_digit_char [simp]: "is_digit (digit_char n)"
  by (simp add: is_digit_def)

lemma hex_val_char [simp]: "hex_val (hex_char n) = Some (n mod 16)"
  using mod_less_divisor [of 16 n] by (auto simp: hex_val_def hex_char_def simp del: mod_less_divisor)

lemma hex_val_zero [simp]: "hex_val (CHR ''0'') = Some 0"
  by (simp add: hex_val_def)

















lemma skip_space [simp]: "skip_ws (CHR '' '' # s) = skip_ws s"
  by (simp add: skip_ws_def is_ws_def)

lemma parse_value_space [simp]: "parse_value n (CHR '' '' # s) = parse_value n s"
  by (cases n) simp_all

lemma parse_elems_space [simp]: "parse_elems n (CHR '' '' # s) acc = parse_elems n s acc"
  by (cases n) simp_all

lemma parse_members_space [simp]: "parse_members n (CHR '' '' # s) acc = parse_members n s acc"
  by (cases n) simp_all


lemma ok_follow_sep [simp]:
  "ok_follow []" "ok_follow (CHR '','' # s)" "ok_follow (CHR '']'' # s)" "ok_follow (CHR ''}'' # s)"
  by (simp_all add: ok_follow_def is_digit_def digit_val_def)

lemma skip_sep [simp]:
  "skip_ws (CHR '','' # s) = CHR '','' # s" "skip_ws (CHR '']'' # s) = CHR '']'' # s"
  "skip_ws (CHR ''}'' # s) = CHR ''}'' # s" "skip_ws (CHR '':'' # s) = CHR '':'' # s"
  "skip_ws (CHR 0x22 # s) = CHR 0x22 # s"
  by (simp_all add: skip_ws_def is_ws_def)

lemma skip_open [simp]:
  "skip_ws (CHR ''['' # s) = CHR ''['' # s" "skip_ws (CHR ''{'' # s) = CHR ''{'' # s"
  by (simp_all add: skip_ws_def is_ws_def)









lemma json_doc_serializable:
  "json_doc v \<longrightarrow> serializable v"
  "json_docs xs \<longrightarrow> list_all serializable xs"
  "json_members kvs \<longrightarrow> list_all (\<lambda>kv. serializable (snd kv)) kvs"
  by (induction v and xs and kvs rule: json_doc_json_docs_json_members.induct) simp_all

section \<open>A configuration value written and read back\<close>








section \<open>Reading back the text that isoformat writes\<close>


lemma parse_fixed_pad:
  "parse_fixed k (pad k n @ r) acc = Some (acc * 10 ^ k + n mod 10 ^ k, r)"
proof (induction k arbitrary: acc)
  case 0
  show ?case by simp
next
  case (Suc k)
  have "n mod (10 ^ k * 10) = 10 ^ k * (n div 10 ^ k mod 10) + n mod 10 ^ k"
    by (rule mod_mult2_eq)
  then show ?case
    using Suc [of "10 * acc + n div 10 ^ k mod 10"]
    by (simp add: algebra_simps)
qed

lemma parse_fixed_pad_end:
  "parse_fixed k (pad k n) acc = Some (acc * 10 ^ k + n mod 10 ^ k, [])"
  using parse_fixed_pad [of k n "[]" acc] by simp

lemma pad_split: "pad (j + k) n = pad j (n div 10 ^ k) @ pad k n"
proof (induction j)
  case 0
  show ?case by simp
next
  case (Suc j)
  have "n div 10 ^ (j + k) = n div 10 ^ k div 10 ^ j"
    by (metis power_add mult.commute div_mult2_eq)
  then show ?case using Suc by simp
qed

lemma pad6: "pad 6 n = pad 3 (n div 1000) @ pad 3 n"
  using pad_split [of 3 3 n] by simp

lemma digit_char_not:
  "digit_char n \<noteq> CHR ''.''" "digit_char n \<noteq> CHR ''+''" "digit_char n \<noteq> CHR ''-''"
  using is_digit_char [of n]
  by (auto simp: is_digit_def digit_val_def simp del: is_digit_char digit_val_char
      split: if_splits)

lemma parse_offset_format:
  assumes "- 1440 < off" "off < 1440"
  shows "parse_offset (format_offset off) = Some off"
proof -
  let ?a = "nat \<bar>off\<bar>"
  have a: "?a div 60 < 24" "?a mod 60 < 60" "?a div 60 mod 100 = ?a div 60"
    "?a mod 60 mod 100 = ?a mod 60"
    using assms by auto
  have v: "int (?a div 60 * 60 + ?a mod 60) = \<bar>off\<bar>"
    by simp
  show ?thesis
  proof (cases "off < 0")
    case True
    then show ?thesis
      using a v
      by (simp add: parse_offset_def format_offset_def parse_fixed_pad parse_fixed_pad_end
          expect_char_def del: of_nat_add of_nat_mult)
  next
    case False
    then show ?thesis
      using a v
      by (simp add: parse_offset_def format_offset_def parse_fixed_pad parse_fixed_pad_end
          expect_char_def del: of_nat_add of_nat_mult)
  qed
qed

lemma format_offset_hd:
  "\<exists>c cs. format_offset off = c # cs \<and> c \<noteq> CHR ''.'' \<and> \<not> is_digit c"
  by (simp add: format_offset_def is_digit_def digit_val_def)

lemma parse_fixed_not_digit: "\<not> is_digit c \<Longrightarrow> parse_fixed (Suc k) (c # cs) acc = None"
  by (simp add: is_digit_def)

lemma parse_tail_format:
  assumes "us < 1000000"
    and "case off of None \<Rightarrow> True | Some o' \<Rightarrow> - 1440 < o' \<and> o' < 1440"
  shows "parse_tail ((if us \<noteq> 0 then ''.'' @ pad 6 us else []) @
                     (case off of None \<Rightarrow> [] | Some o' \<Rightarrow> format_offset o'))
         = Some (us, off)"
proof (cases off)
  case None
  have "us div 1000 mod 1000 = us div 1000" using assms(1) by simp
  then show ?thesis
    using None
    by (simp add: parse_tail_def expect_char_def pad6 parse_fixed_pad parse_fixed_pad_end)
next
  case (Some o')
  then have p: "parse_offset (format_offset o') = Some o'"
    using assms(2) by (simp add: parse_offset_format)
  obtain c cs where c: "format_offset o' = c # cs" "c \<noteq> CHR ''.''" "\<not> is_digit c"
    using format_offset_hd by blast
  have n: "parse_fixed 3 (c # cs) 0 = None"
    using parse_fixed_not_digit [OF c(3), of 2 cs 0] by (simp add: numeral_3_eq_3)
  have d: "us div 1000 mod 1000 = us div 1000" using assms(1) by simp
  show ?thesis
  proof (cases "us = 0")
    case True
    then show ?thesis
      using Some p c by (simp add: parse_tail_def expect_char_def)
  next
    case False
    have "parse_fixed 3 (pad 3 (us div 1000) @ pad 3 us @ c # cs) 0
            = Some (us div 1000, pad 3 us @ c # cs)"
      using d by (simp add: parse_fixed_pad)
    moreover have "parse_fixed 3 (pad 3 us @ c # cs) 0 = Some (us mod 1000, c # cs)"
      by (simp add: parse_fixed_pad)
    ultimately show ?thesis
      using False Some p c
      by (simp add: parse_tail_def expect_char_def pad6)
  qed
qed

lemma fromisoformat_isoformat:
  assumes "valid_datetime d"
  shows "fromisoformat (isoformat d) = Inr d"
proof -
  define tail where "tail =
      (if microsecond d \<noteq> 0 then ''.'' @ pad 6 (microsecond d) else []) @
      (case utcoffset d of None \<Rightarrow> [] | Some o' \<Rightarrow> format_offset o')"
  define time where "time =
      pad 2 (hour d) @ CHR '':'' # pad 2 (minute d) @ CHR '':'' # pad 2 (second d) @ tail"
  have r: "year d mod 10000 = year d" "month d mod 100 = month d" "day d mod 100 = day d"
    "hour d mod 100 = hour d" "minute d mod 100 = minute d" "second d mod 100 = second d"
    using assms by (auto simp: valid_datetime_def days_in_month_def split: if_splits)
  have i: "isoformat d =
      pad 4 (year d) @ CHR ''-'' # pad 2 (month d) @ CHR ''-'' # pad 2 (day d) @ CHR ''T'' # time"
    by (simp add: isoformat_def time_def tail_def)
  have pd: "parse_date (isoformat d) = Some ((year d, month d, day d), CHR ''T'' # time)"
    unfolding i using r by (simp add: parse_date_def parse_fixed_pad expect_char_def)
  have pt: "parse_time time = Some ((hour d, minute d, second d), tail)"
    unfolding time_def using r by (simp add: parse_time_def parse_fixed_pad expect_char_def)
  have tl: "parse_tail tail = Some (microsecond d, utcoffset d)"
    unfolding tail_def using assms by (intro parse_tail_format) (simp_all add: valid_datetime_def)
  have e: "\<lparr>year = year d, month = month d, day = day d, hour = hour d,
      minute = minute d, second = second d, microsecond = microsecond d,
      utcoffset = utcoffset d\<rparr> = d"
    by (cases d) simp
  show ?thesis
    using assms by (simp add: fromisoformat_def pd pt tl e)
qed

end
